theory Spec2Isabelle
  imports Main "HOL-Library.Sublist"
begin

section \<open>Values, objects and the observable trace\<close>

text \<open>
  The program is the ChatEngine client of \<^verbatim>\<open>src/index.js\<close>. Its JavaScript objects
  are modelled with an explicit store: \<open>Chat\<close> and \<open>User\<close> objects live in two heaps
  indexed by addresses, so that two references to the same object are the same address;
  \<open>new\<close> takes the next free address. An object literal is a finite map from property
  names to values; \<open>undefined\<close> as a whole payload or presence state is \<open>None\<close>.

  Boundaries of the model, all taken from how the source uses its collaborators:
  \<^item> the transport object \<open>ChatEngine.pubnub\<close> is taken to exist; every call to it, every
    HTTP request and every local delivery \<open>_emit(event, payload)\<close> is appended to the
    trace \<open>log\<close> of the world, in program order;
  \<^item> listeners registered by the application are observers: their invocation is the
    \<open>LocalEmit\<close> entry of the trace;
  \<^item> \<open>ChatEngine.users\<close> and \<open>Chat.users\<close>, whose keys are the ids that arrive from the
    network, are objects made by \<open>{}\<close>: reading a key finds the entry stored under it or,
    for the name of a member of \<open>Object.prototype\<close>, that inherited member.
    \<open>Chat.events\<close>, \<open>User.states\<close>, \<open>User.chats\<close> and the middleware tables of a
    plugin, whose keys are the event and channel names the application chooses, are maps
    over the keys stored in them;
  \<^item> a middleware handler is a function of the payload and of a plugin-owned state
    \<open>'ps\<close>; it calls its continuation exactly once, either as \<open>next(null, payload)\<close> or
    as \<open>next(err, payload)\<close> with a truthy \<open>err\<close>. A payload is a plain object or
    \<open>undefined\<close>;
  \<^item> a \<open>User\<close> is modelled as an identity (its id, states, chats, feed and direct chat);
    the emitter it inherits, \<open>history\<close> and \<open>invite\<close> are left out.
\<close>

type_synonym addr = nat

datatype jsval =
    Undefined
  | Null
  | Bool bool
  | Num int
  | Str string
  | Obj "string \<Rightarrow> jsval option"
  | UserRef addr
  | ChatRef addr
  | Builtin string

type_synonym jsobj = "string \<Rightarrow> jsval option"

type_synonym payload = "jsobj option"

subsection \<open>Dictionaries keyed by ids\<close>

text \<open>
  What a dictionary keyed by ids holds or lets one read: an identity, or the member of
  \<open>Object.prototype\<close> with a given name (\<open>Builtin\<close> as a value). The members are those of
  the V8 engine; all of them are truthy.
\<close>

datatype slot = Identity addr | Inherited string

type_synonym dict = "string \<Rightarrow> slot option"

definition prototype_members :: "string list" where
  "prototype_members =
     [''constructor'', ''__defineGetter__'', ''__defineSetter__'', ''hasOwnProperty'',
      ''__lookupGetter__'', ''__lookupSetter__'', ''isPrototypeOf'', ''propertyIsEnumerable'',
      ''toString'', ''valueOf'', ''__proto__'', ''toLocaleString'']"

text \<open>\<open>m[k]\<close>: the entry stored under \<open>k\<close>, else the inherited member of that name.\<close>

definition dict_get :: "dict \<Rightarrow> string \<Rightarrow> slot option" where
  "dict_get m k =
     (case m k of
        Some v \<Rightarrow> Some v
      | None \<Rightarrow> if k \<in> set prototype_members then Some (Inherited k) else None)"

text \<open>
  \<open>m[k] = v\<close>. Under \<open>__proto__\<close> an assignment sets the prototype and stores nothing;
  the program assigns there only what it has just read there, the prototype itself.
\<close>

definition dict_put :: "dict \<Rightarrow> string \<Rightarrow> slot \<Rightarrow> dict" where
  "dict_put m k v = (if k = ''__proto__'' then m else m(k \<mapsto> v))"

definition slot_val :: "slot \<Rightarrow> jsval" where
  "slot_val v = (case v of Identity a \<Rightarrow> UserRef a | Inherited k \<Rightarrow> Builtin k)"

datatype effect =
    LocalEmit addr string payload
  | Publish string jsobj
  | AddListener addr
  | AddMessageListener addr string
  | Subscribe "string list"
  | Unsubscribe "string list"
  | HereNow addr "string list"
  | SetState "string list" payload
  | AuthRequest string string
  | ConsoleLog string

datatype js_error = TypeError

datatype 'w outcome = Returned 'w | Thrown js_error 'w

text \<open>Sequencing: what follows a statement that raised is not run.\<close>

definition and_then :: "'w outcome \<Rightarrow> ('w \<Rightarrow> 'w outcome) \<Rightarrow> 'w outcome" where
  "and_then r f = (case r of Returned w \<Rightarrow> f w | Thrown e w \<Rightarrow> Thrown e w)"

definition after :: "'w outcome \<Rightarrow> 'w" where
  "after r = (case r of Returned w \<Rightarrow> w | Thrown e w \<Rightarrow> w)"

subsection \<open>Middleware steps\<close>

datatype step_result = Next payload | Fail jsval payload

type_synonym 'ps handler = "payload \<Rightarrow> 'ps \<Rightarrow> step_result \<times> 'ps"

record 'ps plugin_module =
  namespace :: string
  extends :: "string \<Rightarrow> bool"
  middleware :: "(string \<Rightarrow> (string \<Rightarrow> 'ps handler option) option) option"

subsection \<open>Objects and the world\<close>

record 'ps chat =
  channel :: string
  users :: dict
  events :: "string \<Rightarrow> string option"
  connected :: bool
  autoConnect :: bool
  plugins :: "'ps plugin_module list"
  children :: "string list"

record user =
  uuid :: string
  states :: "string \<Rightarrow> jsobj option"
  chats :: "string \<Rightarrow> addr option"
  feed :: addr
  direct :: addr
  isMe :: bool
  authData :: jsval

record 'ps world =
  globalChannel :: string
  authUrl :: string
  ChatEngine_users :: dict
  ChatEngine_globalChat :: "addr option"
  ChatEngine_me :: "addr option"
  user_heap :: "addr \<Rightarrow> user"
  chat_heap :: "addr \<Rightarrow> 'ps chat"
  next_user :: addr
  next_chat :: addr
  pstate :: 'ps
  log :: "effect list"

record statusEvent =
  se_error :: bool
  se_errorText :: string
  category :: string
  affectedChannels :: "string list"

record presenceEvent =
  pe_channel :: string
  pe_action :: string
  pe_uuid :: string
  pe_state :: payload

section \<open>The middleware pipeline\<close>

text \<open>
  \<open>waterfall\<close> of the async library, as \<open>runPluginQueue\<close> uses it: the tasks run in
  order, each on the value the previous one passed on; the first task that passes an
  error ends the run, and the final callback receives that error and whatever came with
  it. The result is the pair of arguments the final callback is called with (\<open>None\<close> is
  the \<open>null\<close> error of a run that reached its end) and the plugin state.
\<close>

fun waterfall :: "'ps handler list \<Rightarrow> payload \<Rightarrow> 'ps \<Rightarrow> (jsval option \<times> payload) \<times> 'ps" where
  "waterfall [] p s = ((None, p), s)"
| "waterfall (h # hs) p s =
     (case h p s of
        (Next p', s') \<Rightarrow> waterfall hs p' s'
      | (Fail e p', s') \<Rightarrow> ((Some e, p'), s'))"

definition plugin_handler :: "'ps plugin_module \<Rightarrow> string \<Rightarrow> string \<Rightarrow> 'ps handler option" where
  "plugin_handler p location event =
     (case middleware p of
        None \<Rightarrow> None
      | Some m \<Rightarrow> (case m location of None \<Rightarrow> None | Some evs \<Rightarrow> evs event))"

text \<open>The first task of every queue: \<^verbatim>\<open>(next) => { next(null, payload); }\<close>.\<close>

definition first_task :: "payload \<Rightarrow> 'ps handler" where
  "first_task payload = (\<lambda>_ s. (Next payload, s))"

definition plugin_queue :: "'ps handler \<Rightarrow> 'ps plugin_module list \<Rightarrow> string \<Rightarrow> string \<Rightarrow> 'ps handler list" where
  "plugin_queue first_fn ps location event =
     first_fn # List.map_filter (\<lambda>p. plugin_handler p location event) ps"

definition runPluginQueue ::
  "addr \<Rightarrow> string \<Rightarrow> string \<Rightarrow> 'ps handler \<Rightarrow>
   (jsval option \<Rightarrow> payload \<Rightarrow> 'ps world \<Rightarrow> 'r) \<Rightarrow> 'ps world \<Rightarrow> 'r" where
  "runPluginQueue c location event first_fn last_fn w =
     (case waterfall (plugin_queue first_fn (plugins (chat_heap w c)) location event) None (pstate w) of
        ((err, payload), s) \<Rightarrow> last_fn err payload (w\<lparr>pstate := s\<rparr>))"

section \<open>Local delivery\<close>

definition js_truthy :: "jsval \<Rightarrow> bool" where
  "js_truthy v =
     (case v of
        Undefined \<Rightarrow> False
      | Null \<Rightarrow> False
      | Bool b \<Rightarrow> b
      | Num n \<Rightarrow> n \<noteq> 0
      | Str s \<Rightarrow> s \<noteq> []
      | _ \<Rightarrow> True)"

definition get_prop :: "jsobj \<Rightarrow> string \<Rightarrow> jsval" where
  "get_prop obj k = (case obj k of None \<Rightarrow> Undefined | Some v \<Rightarrow> v)"

text \<open>
  \<open>_emit\<close> of \<open>Emitter\<close>: the event goes to the listeners of the \<open>ChatEngine\<close> object and
  to those of the emitting object; both deliveries are the one \<open>LocalEmit\<close> entry.
\<close>

definition emit_local :: "addr \<Rightarrow> string \<Rightarrow> payload \<Rightarrow> 'ps world \<Rightarrow> 'ps world" where
  "emit_local c event payload w = w\<lparr>log := log w @ [LocalEmit c event payload]\<rparr>"

text \<open>
  The string a value turns into when it is used as a property key. A number is taken to
  be an integer printed in decimal; an object prints as \<open>[object Object]\<close>, a built-in
  function as its native source text.
\<close>

fun decimal :: "nat \<Rightarrow> string" where
  "decimal n =
     (if n < 10 then [char_of (48 + n)] else decimal (n div 10) @ [char_of (48 + n mod 10)])"

definition js_toString :: "jsval \<Rightarrow> string" where
  "js_toString v =
     (case v of
        Undefined \<Rightarrow> ''undefined''
      | Null \<Rightarrow> ''null''
      | Bool b \<Rightarrow> (if b then ''true'' else ''false'')
      | Num n \<Rightarrow> (if n < 0 then ''-'' @ decimal (nat (- n)) else decimal (nat n))
      | Str s \<Rightarrow> s
      | Builtin k \<Rightarrow>
          (if k = ''__proto__'' then ''[object Object]''
           else ''function '' @ (if k = ''constructor'' then ''Object'' else k) @ ''() { [native code] }'')
      | _ \<Rightarrow> ''[object Object]'')"

text \<open>
  The block of \<open>trigger\<close> that restores the chat and the sender of a payload object:
  a missing or falsy \<open>chat\<close> becomes this chat, and a truthy \<open>sender\<close> under which
  \<open>ChatEngine.users\<close> reads something becomes what it reads.
\<close>

definition restore_payload :: "addr \<Rightarrow> 'ps world \<Rightarrow> jsobj \<Rightarrow> jsobj" where
  "restore_payload c w obj =
     (let obj1 = (if \<not> js_truthy (get_prop obj ''chat'') then obj(''chat'' \<mapsto> ChatRef c) else obj);
          sender = get_prop obj1 ''sender''
      in if js_truthy sender then
           (case dict_get (ChatEngine_users w) (js_toString sender) of
              Some v \<Rightarrow> obj1(''sender'' \<mapsto> slot_val v)
            | None \<Rightarrow> obj1)
         else obj1)"

text \<open>
  The test \<open>typeof payload == "object"\<close> around that block: \<open>undefined\<close> stays
  \<open>undefined\<close>.
\<close>

definition restore :: "addr \<Rightarrow> 'ps world \<Rightarrow> payload \<Rightarrow> payload" where
  "restore c w payload =
     (case payload of None \<Rightarrow> None | Some obj \<Rightarrow> Some (restore_payload c w obj))"

definition trigger :: "addr \<Rightarrow> string \<Rightarrow> payload \<Rightarrow> 'ps world \<Rightarrow> 'ps world" where
  "trigger c event payload w =
     runPluginQueue c ''on'' event (first_task (restore c w payload))
       (\<lambda>err p w'. emit_local c event p w') w"

section \<open>Connection status\<close>

definition onStatus :: "addr \<Rightarrow> statusEvent \<Rightarrow> 'ps world \<Rightarrow> 'ps world" where
  "onStatus c statusEvent w =
     (let w1 = (if se_error statusEvent
                then w\<lparr>log := log w @ [ConsoleLog (se_errorText statusEvent)]\<rparr> else w)
      in if category statusEvent = ''PNConnectedCategory'' then
           (if channel (chat_heap w1 c) \<in> set (affectedChannels statusEvent) then
              trigger c ''$.connected'' None
                (w1\<lparr>chat_heap := (chat_heap w1)(c := (chat_heap w1 c)\<lparr>connected := True\<rparr>)\<rparr>)
            else w1)
         else w1)"


section \<open>Channel names\<close>

text \<open>\<open>Array.prototype.join\<close> on strings, and \<open>String.prototype.indexOf\<close>.\<close>

fun join :: "string \<Rightarrow> string list \<Rightarrow> string" where
  "join sep [] = []"
| "join sep [x] = x"
| "join sep (x # y # ys) = x @ sep @ join sep (y # ys)"

fun indexOf_from :: "string \<Rightarrow> string \<Rightarrow> nat \<Rightarrow> int" where
  "indexOf_from [] sub i = (if sub = [] then int i else - 1)"
| "indexOf_from (x # xs) sub i =
     (if prefix sub (x # xs) then int i else indexOf_from xs sub (Suc i))"

definition indexOf :: "string \<Rightarrow> string \<Rightarrow> int" where
  "indexOf s sub = indexOf_from s sub 0"

text \<open>
  The channel of a new \<open>Chat\<close>, from the configured \<open>ceConfig.globalChannel\<close>, the
  constructor's \<open>channel\<close> argument and its \<open>needGrant\<close> flag.
\<close>

definition chat_channel :: "string \<Rightarrow> string \<Rightarrow> bool \<Rightarrow> string" where
  "chat_channel gc channel0 needGrant =
     (let chanPrivString = (if needGrant then ''private.'' else ''public.'')
      in if indexOf channel0 gc = - 1
         then join '':'' [gc, ''chat'', chanPrivString, channel0]
         else channel0)"

section \<open>Chat: construction and connection\<close>

definition connect :: "addr \<Rightarrow> 'ps world \<Rightarrow> 'ps world" where
  "connect c w =
     (if \<not> connected (chat_heap w c) then
        w\<lparr>log := log w @
             [AddListener c,
              Subscribe [channel (chat_heap w c)],
              HereNow c [channel (chat_heap w c)]]\<rparr>
      else w)"

definition onPrep :: "addr \<Rightarrow> 'ps world \<Rightarrow> 'ps world" where
  "onPrep c w = (if autoConnect (chat_heap w c) then connect c w else w)"

text \<open>
  \<open>grant\<close> posts to the authorization service; \<open>onPrep\<close> runs when the answer arrives,
  whatever it is (\<open>grant_response\<close>).
\<close>

definition grant :: "addr \<Rightarrow> 'ps world \<Rightarrow> 'ps world" where
  "grant c w = w\<lparr>log := log w @ [AuthRequest (authUrl w @ ''/chat'') (channel (chat_heap w c))]\<rparr>"

definition grant_response :: "addr \<Rightarrow> 'ps world \<Rightarrow> 'ps world" where
  "grant_response c w = onPrep c w"

definition new_Chat :: "string \<Rightarrow> bool \<Rightarrow> bool \<Rightarrow> 'ps world \<Rightarrow> addr \<times> 'ps world" where
  "new_Chat channel0 autoConn needGrant w =
     (let c = next_chat w;
          obj = \<lparr>channel = chat_channel (globalChannel w) channel0 needGrant,
                 users = Map.empty, events = Map.empty, connected = False,
                 autoConnect = autoConn, plugins = [], children = []\<rparr>;
          w1 = w\<lparr>chat_heap := (chat_heap w)(c := obj), next_chat := Suc c\<rparr>
      in (c, if needGrant then grant c w1 else onPrep c w1))"

definition leave :: "addr \<Rightarrow> 'ps world \<Rightarrow> 'ps world" where
  "leave c w = w\<lparr>log := log w @ [Unsubscribe [channel (chat_heap w c)]]\<rparr>"

definition setState :: "addr \<Rightarrow> payload \<Rightarrow> 'ps world \<Rightarrow> 'ps world" where
  "setState c state w = w\<lparr>log := log w @ [SetState [channel (chat_heap w c)] state]\<rparr>"

text \<open>\<open>Emitter.plugin\<close>, on a \<open>Chat\<close> (whose class name is \<open>Chat\<close>).\<close>

definition plugin :: "addr \<Rightarrow> 'ps plugin_module \<Rightarrow> 'ps world \<Rightarrow> 'ps world" where
  "plugin c module w =
     (let ch = chat_heap w c;
          ch1 = ch\<lparr>plugins := plugins ch @ [module]\<rparr>;
          ch2 = (if extends module ''Chat''
                 then ch1\<lparr>children := children ch1 @ [namespace module]\<rparr> else ch1)
      in w\<lparr>chat_heap := (chat_heap w)(c := ch2)\<rparr>)"

section \<open>User\<close>

definition Object_assign :: "jsobj \<Rightarrow> payload \<Rightarrow> jsobj" where
  "Object_assign target source = (case source of None \<Rightarrow> target | Some src \<Rightarrow> target ++ src)"

definition state_at :: "user \<Rightarrow> string \<Rightarrow> jsobj" where
  "state_at u key = (case states u key of None \<Rightarrow> Map.empty | Some st \<Rightarrow> st)"

definition User_state :: "addr \<Rightarrow> addr \<Rightarrow> 'ps world \<Rightarrow> jsobj" where
  "User_state a c w = state_at (user_heap w a) (channel (chat_heap w c))"

definition update_at :: "addr \<Rightarrow> payload \<Rightarrow> string \<Rightarrow> 'ps world \<Rightarrow> 'ps world" where
  "update_at a state key w =
     (let u = user_heap w a;
          chatState = state_at u key
      in w\<lparr>user_heap := (user_heap w)(a := u\<lparr>states := (states u)(key \<mapsto> Object_assign chatState state)\<rparr>)\<rparr>)"

definition User_update :: "addr \<Rightarrow> payload \<Rightarrow> addr \<Rightarrow> 'ps world \<Rightarrow> 'ps world" where
  "User_update a state c w = update_at a state (channel (chat_heap w c)) w"

text \<open>
  \<open>assign\<close> of \<open>User\<close> calls \<open>this.update\<close>; \<open>Me\<close> overrides \<open>assign\<close> to call
  \<open>super.update\<close>. On either class it is \<open>User.update\<close>.
\<close>

definition assign :: "addr \<Rightarrow> payload \<Rightarrow> addr \<Rightarrow> 'ps world \<Rightarrow> 'ps world" where
  "assign a state c w = User_update a state c w"

definition Me_update :: "addr \<Rightarrow> payload \<Rightarrow> addr \<Rightarrow> 'ps world \<Rightarrow> 'ps world" where
  "Me_update a state c w = setState c state (User_update a state c w)"

definition addChat :: "addr \<Rightarrow> addr \<Rightarrow> payload \<Rightarrow> 'ps world \<Rightarrow> 'ps world" where
  "addChat a c state w =
     (let u = user_heap w a;
          w1 = w\<lparr>user_heap := (user_heap w)(a := u\<lparr>chats := (chats u)(channel (chat_heap w c) \<mapsto> c)\<rparr>)\<rparr>
      in assign a state c w1)"

text \<open>
  The constructor \<open>new User(uuid)\<close> (\<open>is_me\<close> for the subclass \<open>Me\<close>), with the default
  arguments \<open>state = {}\<close> and \<open>chat = ChatEngine.globalChat\<close> written out. While
  \<open>ChatEngine.globalChat\<close> is still \<open>false\<close>, its \<open>channel\<close> reads as \<open>undefined\<close>, which
  \<open>join\<close> renders as the empty string and a property access as the key \<open>undefined\<close>.
\<close>

definition new_User :: "bool \<Rightarrow> string \<Rightarrow> 'ps world \<Rightarrow> addr \<times> 'ps world" where
  "new_User is_me uid w =
     (let a = next_user w;
          gch = (case ChatEngine_globalChat w of None \<Rightarrow> [] | Some g \<Rightarrow> channel (chat_heap w g));
          (f, w1) = new_Chat (join '':'' [gch, ''user'', uid, ''read.'', ''feed'']) is_me False w;
          (d, w2) = new_Chat (join '':'' [gch, ''user'', uid, ''write.'', ''direct'']) is_me False w1;
          obj = \<lparr>uuid = uid, states = Map.empty, chats = Map.empty, feed = f, direct = d,
                 isMe = is_me, authData = Undefined\<rparr>;
          w3 = w2\<lparr>user_heap := (user_heap w2)(a := obj), next_user := Suc a\<rparr>;
          w4 = (if dict_get (ChatEngine_users w3) uid = None
                then w3\<lparr>ChatEngine_users := dict_put (ChatEngine_users w3) uid (Identity a)\<rparr>
                else w3)
      in (a, case ChatEngine_globalChat w4 of
               None \<Rightarrow> update_at a (Some Map.empty) ''undefined'' w4
             | Some g \<Rightarrow> assign a (Some Map.empty) g w4))"

definition new_Me :: "string \<Rightarrow> jsval \<Rightarrow> 'ps world \<Rightarrow> addr \<times> 'ps world" where
  "new_Me uid auth w =
     (let (a, w1) = new_User True uid w
      in (a, w1\<lparr>user_heap := (user_heap w1)(a := (user_heap w1 a)\<lparr>authData := auth\<rparr>)\<rparr>))"

section \<open>Chat: roster reconciliation\<close>

text \<open>
  \<^verbatim>\<open>ChatEngine.users[uuid] = ChatEngine.users[uuid] || new User(uuid)\<close>, the first statement
  of \<open>createUser\<close> and of \<open>userUpdate\<close>. Whatever the table reads under the id is truthy
  and is stored back under it; only when it reads nothing is a \<open>User\<close> built.
\<close>

definition ensure_user :: "string \<Rightarrow> 'ps world \<Rightarrow> 'ps world" where
  "ensure_user uid w =
     (case dict_get (ChatEngine_users w) uid of
        Some v \<Rightarrow> w\<lparr>ChatEngine_users := dict_put (ChatEngine_users w) uid v\<rparr>
      | None \<Rightarrow>
          (let (a, w1) = new_User False uid w
           in w1\<lparr>ChatEngine_users := dict_put (ChatEngine_users w1) uid (Identity a)\<rparr>))"

text \<open>What \<open>ChatEngine.users[uuid]\<close> reads as, the value \<open>createUser\<close> returns.\<close>

definition table_value :: "string \<Rightarrow> 'ps world \<Rightarrow> jsval" where
  "table_value uid w =
     (case dict_get (ChatEngine_users w) uid of None \<Rightarrow> Undefined | Some v \<Rightarrow> slot_val v)"

text \<open>
  \<open>createUser\<close>. When the table reads an inherited member under the id, that member has
  no \<open>addChat\<close> and the call raises a \<open>TypeError\<close>, after the table has been written.
  What the method returns is \<open>ChatEngine.users[uuid]\<close>, read in the world it leaves
  (\<open>table_value\<close>).
\<close>

definition createUser :: "addr \<Rightarrow> string \<Rightarrow> payload \<Rightarrow> bool \<Rightarrow> 'ps world \<Rightarrow> 'ps world outcome" where
  "createUser c uid state force w =
     (let w1 = ensure_user uid w
      in case dict_get (ChatEngine_users w1) uid of
           Some (Identity a) \<Rightarrow>
             (let w2 = addChat a c state w1;
                  w3 = (if dict_get (users (chat_heap w2 c)) uid = None \<or> force
                        then trigger c ''$.online.new'' (Some [''user'' \<mapsto> UserRef a]) w2
                        else w2);
                  ch = chat_heap w3 c
              in Returned
                   (w3\<lparr>chat_heap := (chat_heap w3)(c := ch\<lparr>users := dict_put (users ch) uid (Identity a)\<rparr>)\<rparr>))
         | _ \<Rightarrow> Thrown TypeError w1)"

text \<open>
  \<open>userUpdate\<close>. The roster entry \<open>this.users[uuid]\<close> is read after \<open>createUser\<close> has
  stored it. When the roster reads an inherited member under the id, \<open>createUser\<close> is
  skipped and the calls of \<open>assign\<close> and \<open>state\<close> on that member raise a \<open>TypeError\<close>
  (for the member \<open>constructor\<close>, the function \<open>Object\<close>, it is the call of \<open>state\<close>
  that raises) before anything is triggered.
\<close>

definition userUpdate :: "addr \<Rightarrow> string \<Rightarrow> payload \<Rightarrow> 'ps world \<Rightarrow> 'ps world outcome" where
  "userUpdate c uid state w =
     (let w1 = ensure_user uid w
      in and_then
           (if dict_get (users (chat_heap w1 c)) uid = None
            then createUser c uid state False w1 else Returned w1)
           (\<lambda>w2. case dict_get (users (chat_heap w2 c)) uid of
                    Some (Identity b) \<Rightarrow>
                      (let w3 = assign b state c w2
                       in Returned
                            (trigger c ''$.state''
                               (Some [''user'' \<mapsto> UserRef b, ''state'' \<mapsto> Obj (User_state b c w3)]) w3))
                  | _ \<Rightarrow> Thrown TypeError w2))"

text \<open>
  \<open>userLeave\<close> and \<open>userDisconnect\<close> test \<open>this.users[uuid]\<close> for truthiness and put what
  it reads into the payload; \<open>delete\<close> removes the entry stored under the id.
\<close>

definition userLeave :: "addr \<Rightarrow> string \<Rightarrow> 'ps world \<Rightarrow> 'ps world" where
  "userLeave c uid w =
     (case dict_get (users (chat_heap w c)) uid of
        Some v \<Rightarrow>
          (let w1 = trigger c ''$.offline.leave'' (Some [''user'' \<mapsto> slot_val v]) w;
               ch = chat_heap w1 c
           in w1\<lparr>chat_heap := (chat_heap w1)(c := ch\<lparr>users := (users ch)(uid := None)\<rparr>)\<rparr>)
      | None \<Rightarrow> w)"

definition userDisconnect :: "addr \<Rightarrow> string \<Rightarrow> 'ps world \<Rightarrow> 'ps world" where
  "userDisconnect c uid w =
     (case dict_get (users (chat_heap w c)) uid of
        Some v \<Rightarrow> trigger c ''$.offline.disconnect'' (Some [''user'' \<mapsto> slot_val v]) w
      | None \<Rightarrow> w)"

definition onPresence :: "addr \<Rightarrow> presenceEvent \<Rightarrow> 'ps world \<Rightarrow> 'ps world outcome" where
  "onPresence c presenceEvent w =
     (if channel (chat_heap w c) = pe_channel presenceEvent then
        and_then
          (and_then
             (and_then
                (if pe_action presenceEvent = ''join'' then
                   and_then (createUser c (pe_uuid presenceEvent) (pe_state presenceEvent) False w)
                     (\<lambda>w'. Returned
                        (trigger c ''$.online.join''
                           (Some [''user'' \<mapsto> table_value (pe_uuid presenceEvent) w']) w'))
                 else Returned w)
                (\<lambda>w1. Returned (if pe_action presenceEvent = ''leave''
                                then userLeave c (pe_uuid presenceEvent) w1 else w1)))
             (\<lambda>w2. Returned (if pe_action presenceEvent = ''timeout''
                             then userDisconnect c (pe_uuid presenceEvent) w2 else w2)))
          (\<lambda>w3. if pe_action presenceEvent = ''state-change''
                then userUpdate c (pe_uuid presenceEvent) (pe_state presenceEvent) w3
                else Returned w3)
      else Returned w)"

text \<open>
  \<open>onHereNow\<close>: \<open>status.error\<close> with its text, or the occupants of this channel, each a
  uuid with a state; an occupant for which \<open>userUpdate\<close> raises ends the loop.
\<close>

definition onHereNow ::
  "addr \<Rightarrow> string option \<Rightarrow> (string \<times> payload) list \<Rightarrow> 'ps world \<Rightarrow> 'ps world outcome" where
  "onHereNow c status_error occupants w =
     (case status_error of
        Some text \<Rightarrow> Returned (w\<lparr>log := log w @ [ConsoleLog text]\<rparr>)
      | None \<Rightarrow>
          fold (\<lambda>(uid, st) r. and_then r (userUpdate c uid st)) occupants (Returned w))"

section \<open>Chat: sending\<close>

text \<open>
  \<^verbatim>\<open>this.events[event] = this.events[event] || new Event(this, event)\<close>: an \<open>Event\<close> keeps
  the channel of its chat and registers a message listener when it is built. The channel
  returned is that of \<open>this.events[event]\<close>.
\<close>

definition ensure_Event :: "addr \<Rightarrow> string \<Rightarrow> 'ps world \<Rightarrow> string \<times> 'ps world" where
  "ensure_Event c event w =
     (let ch = chat_heap w c
      in case events ch event of
           Some ev_channel \<Rightarrow> (ev_channel, w)
         | None \<Rightarrow>
             (channel ch,
              w\<lparr>chat_heap := (chat_heap w)(c := ch\<lparr>events := (events ch)(event \<mapsto> channel ch)\<rparr>),
                log := log w @ [AddMessageListener c event]\<rparr>))"

text \<open>\<open>publish\<close> of an \<open>Event\<close> with channel \<open>ev_channel\<close>.\<close>

definition publish :: "string \<Rightarrow> string \<Rightarrow> jsobj \<Rightarrow> 'ps world \<Rightarrow> 'ps world" where
  "publish ev_channel event m w =
     w\<lparr>log := log w @ [Publish ev_channel (m(''event'' \<mapsto> Str event))]\<rparr>"

text \<open>
  \<open>onMessage\<close> of the \<open>Event\<close> that chat \<open>c\<close> holds for \<open>event\<close>, on a message the
  transport delivers on \<open>m_channel\<close>. The message is an object; its property \<open>event\<close> is
  compared with the event name.
\<close>

definition Event_onMessage :: "addr \<Rightarrow> string \<Rightarrow> string \<Rightarrow> jsobj \<Rightarrow> 'ps world \<Rightarrow> 'ps world" where
  "Event_onMessage c event m_channel message w =
     (case events (chat_heap w c) event of
        None \<Rightarrow> w
      | Some ev_channel \<Rightarrow>
          (if ev_channel = m_channel \<and> get_prop message ''event'' = Str event
           then trigger c event (Some message) w else w))"

text \<open>
  The final callback of \<open>emit\<close>. It ignores its \<open>err\<close> argument; \<^verbatim>\<open>delete payload.chat\<close>
  raises a \<open>TypeError\<close> when the payload is \<open>undefined\<close>.
\<close>

definition emit_last :: "addr \<Rightarrow> string \<Rightarrow> jsval option \<Rightarrow> payload \<Rightarrow> 'ps world \<Rightarrow> 'ps world outcome" where
  "emit_last c event err payload w =
     (case payload of
        None \<Rightarrow> Thrown TypeError w
      | Some obj \<Rightarrow>
          (let (ev_channel, w1) = ensure_Event c event w
           in Returned (publish ev_channel event (obj(''chat'' := None)) w1)))"

text \<open>The standardized payload object that \<open>emit\<close> builds.\<close>

definition emit_payload :: "addr \<Rightarrow> jsval \<Rightarrow> 'ps world \<Rightarrow> jsobj" where
  "emit_payload c data w =
     [''data'' \<mapsto> data,
      ''sender'' \<mapsto> (case ChatEngine_me w of None \<Rightarrow> Undefined | Some m \<Rightarrow> Str (uuid (user_heap w m))),
      ''chat'' \<mapsto> ChatRef c]"

definition emit :: "addr \<Rightarrow> string \<Rightarrow> jsval \<Rightarrow> 'ps world \<Rightarrow> 'ps world outcome" where
  "emit c event data w =
     runPluginQueue c ''emit'' event (first_task (Some (emit_payload c data w)))
       (emit_last c event) w"

section \<open>The engine\<close>

definition blank_chat :: "'ps chat" where
  "blank_chat = \<lparr>channel = [], users = Map.empty, events = Map.empty, connected = False,
                 autoConnect = False, plugins = [], children = []\<rparr>"

definition blank_user :: user where
  "blank_user = \<lparr>uuid = [], states = Map.empty, chats = Map.empty, feed = 0, direct = 0,
                 isMe = False, authData = Undefined\<rparr>"

text \<open>
  \<open>create\<close> followed by \<open>init\<close>: no user, no global chat, no \<open>me\<close>; \<open>globalChannel\<close>
  defaults to \<open>chat-engine\<close> when the configuration gives none (an empty string is falsy).
\<close>

definition init :: "string \<Rightarrow> string \<Rightarrow> 'ps \<Rightarrow> 'ps world" where
  "init gc url s =
     \<lparr>globalChannel = (if gc \<noteq> [] then gc else ''chat-engine''), authUrl = url,
      ChatEngine_users = Map.empty, ChatEngine_globalChat = None, ChatEngine_me = None,
      user_heap = (\<lambda>_. blank_user), chat_heap = (\<lambda>_. blank_chat),
      next_user = 0, next_chat = 0, pstate = s, log = []\<rparr>"

text \<open>The function \<open>complete\<close> of \<open>ChatEngine.connect\<close>.\<close>

definition ChatEngine_connect :: "string \<Rightarrow> payload \<Rightarrow> jsval \<Rightarrow> 'ps world \<Rightarrow> 'ps world outcome" where
  "ChatEngine_connect uid state auth w =
     (let (g, w1) = new_Chat (globalChannel w) True False w;
          w2 = w1\<lparr>ChatEngine_globalChat := Some g\<rparr>;
          (m, w3) = new_Me uid auth w2;
          w4 = w3\<lparr>ChatEngine_me := Some m\<rparr>
      in and_then (createUser g uid state False w4)
           (\<lambda>w5. Returned (snd (ensure_Event g ''$.connected'' (Me_update m state g w5)))))"

section \<open>The engine as a transition system\<close>

text \<open>
  What the application and the transport can do to a running engine: build chats and
  users, connect, add a user to a chat, register plugins and listeners, send, leave,
  publish the state of \<open>me\<close>, and deliver status, presence, occupancy, message and
  grant answers. (\<open>history\<close> and
  \<open>invite\<close> only send requests and trigger events; they are not part of the model.)
  After an uncaught exception the engine goes on from the state the exception left.
\<close>

datatype 'ps action =
    NewChat string bool bool
  | NewUser string
  | ConnectEngine string payload jsval
  | CreateUser addr string payload bool
  | GrantResponse addr
  | Connect addr
  | On addr string
  | Plugin addr "'ps plugin_module"
  | Emit addr string jsval
  | Leave addr
  | SetMyState payload addr
  | OnStatus addr statusEvent
  | OnHereNow addr "string option" "(string \<times> payload) list"
  | OnPresence addr presenceEvent
  | OnMessage addr string string jsobj

fun step :: "'ps action \<Rightarrow> 'ps world \<Rightarrow> 'ps world" where
  "step (NewChat ch ac ng) w = snd (new_Chat ch ac ng w)"
| "step (NewUser uid) w = snd (new_User False uid w)"
| "step (ConnectEngine uid st auth) w = after (ChatEngine_connect uid st auth w)"
| "step (CreateUser c uid st force) w = after (createUser c uid st force w)"
| "step (GrantResponse c) w = grant_response c w"
| "step (Connect c) w = connect c w"
| "step (On c event) w = snd (ensure_Event c event w)"
| "step (Plugin c m) w = plugin c m w"
| "step (Emit c event data) w = after (emit c event data w)"
| "step (Leave c) w = leave c w"
| "step (SetMyState st c) w =
     (case ChatEngine_me w of None \<Rightarrow> w | Some m \<Rightarrow> Me_update m st c w)"
| "step (OnStatus c se) w = onStatus c se w"
| "step (OnHereNow c err occupants) w = after (onHereNow c err occupants w)"
| "step (OnPresence c pe) w = after (onPresence c pe w)"
| "step (OnMessage c event m_channel message) w = Event_onMessage c event m_channel message w"

inductive reachable :: "'ps world \<Rightarrow> bool" where
  initial: "reachable (init gc url s)"
| transition: "reachable w \<Longrightarrow> reachable (step act w)"

section \<open>Observations on the trace\<close>

text \<open>The payloads of the local deliveries of \<open>event\<close> by chat \<open>c\<close>, oldest first.\<close>

fun emitted_in :: "addr \<Rightarrow> string \<Rightarrow> effect list \<Rightarrow> payload list" where
  "emitted_in c event [] = []"
| "emitted_in c event (LocalEmit c' event' p # es) =
     (if c' = c \<and> event' = event then p # emitted_in c event es else emitted_in c event es)"
| "emitted_in c event (_ # es) = emitted_in c event es"

definition emitted :: "addr \<Rightarrow> string \<Rightarrow> 'ps world \<Rightarrow> payload list" where
  "emitted c event w = emitted_in c event (log w)"

text \<open>The names of the events chat \<open>c\<close> delivered locally, oldest first.\<close>

fun local_events_in :: "addr \<Rightarrow> effect list \<Rightarrow> string list" where
  "local_events_in c [] = []"
| "local_events_in c (LocalEmit c' event p # es) =
     (if c' = c then event # local_events_in c es else local_events_in c es)"
| "local_events_in c (_ # es) = local_events_in c es"

definition local_events :: "addr \<Rightarrow> 'ps world \<Rightarrow> string list" where
  "local_events c w = local_events_in c (log w)"

text \<open>What was published over the transport, oldest first.\<close>

fun published_in :: "effect list \<Rightarrow> (string \<times> jsobj) list" where
  "published_in [] = []"
| "published_in (Publish ch m # es) = (ch, m) # published_in es"
| "published_in (_ # es) = published_in es"

definition published :: "'ps world \<Rightarrow> (string \<times> jsobj) list" where
  "published w = published_in (log w)"

text \<open>
  The arguments of the final callback and the plugin state at the end of the
  \<open>on\<close> queue that \<open>trigger\<close> runs.
\<close>

definition on_result :: "addr \<Rightarrow> string \<Rightarrow> payload \<Rightarrow> 'ps world \<Rightarrow> (jsval option \<times> payload) \<times> 'ps" where
  "on_result c event payload w =
     waterfall
       (plugin_queue (first_task (restore c w payload)) (plugins (chat_heap w c)) ''on'' event)
       None (pstate w)"

definition delivered :: "addr \<Rightarrow> string \<Rightarrow> payload \<Rightarrow> 'ps world \<Rightarrow> payload" where
  "delivered c event payload w = snd (fst (on_result c event payload w))"

text \<open>No plugin of chat \<open>c\<close> has a handler for \<open>event\<close> at \<open>location\<close>.\<close>

definition no_handler :: "addr \<Rightarrow> string \<Rightarrow> string \<Rightarrow> 'ps world \<Rightarrow> bool" where
  "no_handler c location event w =
     (List.map_filter (\<lambda>p. plugin_handler p location event) (plugins (chat_heap w c)) = [])"

text \<open>
  The arguments of the final callback and the plugin state at the end of the queue for
  \<open>location\<close> and \<open>event\<close>, started on \<open>seed\<close>.
\<close>

definition pipeline_result ::
  "addr \<Rightarrow> string \<Rightarrow> string \<Rightarrow> payload \<Rightarrow> 'ps world \<Rightarrow> jsval option \<times> payload \<times> 'ps" where
  "pipeline_result c location event seed w =
     runPluginQueue c location event (first_task seed) (\<lambda>err p w'. (err, p, pstate w')) w"

text \<open>The run of the queue built from the plugins \<open>ps\<close> alone.\<close>

definition queue_result ::
  "'ps plugin_module list \<Rightarrow> string \<Rightarrow> string \<Rightarrow> payload \<Rightarrow> 'ps \<Rightarrow> (jsval option \<times> payload) \<times> 'ps" where
  "queue_result ps location event seed s =
     waterfall (plugin_queue (first_task seed) ps location event) None s"

text \<open>
  The state recorded for the participant \<open>uid\<close> in room \<open>c\<close>: that of the identity the
  global table holds for \<open>uid\<close>, empty when the table holds none.
\<close>

definition known_state :: "addr \<Rightarrow> string \<Rightarrow> 'ps world \<Rightarrow> jsobj" where
  "known_state c uid w =
     (case ChatEngine_users w uid of Some (Identity a) \<Rightarrow> User_state a c w | _ \<Rightarrow> Map.empty)"


section \<open>Invariants of the identity table\<close>

text \<open>
  Every roster entry is an identity, the one the global table holds for that id.
\<close>

definition roster_in_table :: "'ps world \<Rightarrow> bool" where
  "roster_in_table w =
     (\<forall>c uid v. users (chat_heap w c) uid = Some v \<longrightarrow>
        (\<exists>a. v = Identity a) \<and> ChatEngine_users w uid = Some v)"

text \<open>
  The global table only grows: an entry, once made, stays and keeps pointing to the same
  object.
\<close>

definition extends_table :: "'ps world \<Rightarrow> 'ps world \<Rightarrow> bool" where
  "extends_table w w' =
     (\<forall>uid v. ChatEngine_users w uid = Some v \<longrightarrow> ChatEngine_users w' uid = Some v)"

text \<open>
  An entry of the global table is an allocated identity that carries its id, under an id
  that names no member of \<open>Object.prototype\<close>; or it is such a member, stored under its
  own name.
\<close>

definition table_wf :: "'ps world \<Rightarrow> bool" where
  "table_wf w =
     (\<forall>uid v. ChatEngine_users w uid = Some v \<longrightarrow>
        (case v of
           Identity a \<Rightarrow>
             a < next_user w \<and> uuid (user_heap w a) = uid \<and> uid \<notin> set prototype_members
         | Inherited k \<Rightarrow> k = uid \<and> uid \<in> set prototype_members))"

text \<open>
  How a transition may change identities: the table grows, by entries for freshly
  allocated objects that carry their id or by inherited members under their own names;
  allocated objects keep their id; a roster entry is an old one or the table's identity
  for that id.
\<close>

definition evolves :: "'ps world \<Rightarrow> 'ps world \<Rightarrow> bool" where
  "evolves w w' =
     (extends_table w w'
      \<and> next_user w \<le> next_user w'
      \<and> (\<forall>a. a < next_user w \<longrightarrow> uuid (user_heap w' a) = uuid (user_heap w a))
      \<and> (\<forall>uid v. ChatEngine_users w' uid = Some v \<longrightarrow>
            ChatEngine_users w uid = Some v
            \<or> (\<exists>a. v = Identity a \<and> next_user w \<le> a \<and> a < next_user w'
                  \<and> uuid (user_heap w' a) = uid \<and> uid \<notin> set prototype_members)
            \<or> (v = Inherited uid \<and> uid \<in> set prototype_members))
      \<and> (\<forall>c uid v. users (chat_heap w' c) uid = Some v \<longrightarrow>
            users (chat_heap w c) uid = Some v
            \<or> ((\<exists>a. v = Identity a) \<and> ChatEngine_users w' uid = Some v)))"

text \<open>
  The identity an observation of \<open>uid\<close> works on: the one the table holds, else the next
  object to be allocated.
\<close>

definition identity_for :: "string \<Rightarrow> 'ps world \<Rightarrow> addr" where
  "identity_for uid w =
     (case ChatEngine_users w uid of Some (Identity a) \<Rightarrow> a | _ \<Rightarrow> next_user w)"

text \<open>
  The id names no member of \<open>Object.prototype\<close>, and the table holds no such member under
  it.
\<close>

definition plain_id :: "string \<Rightarrow> 'ps world \<Rightarrow> bool" where
  "plain_id uid w =
     (uid \<notin> set prototype_members \<and> (\<forall>k. ChatEngine_users w uid \<noteq> Some (Inherited k)))"

section \<open>Sample worlds\<close>

definition demo_init :: "string list world" where
  "demo_init = init ''chat-engine'' ''http://localhost/auth'' []"

text \<open>
  The engine after \<open>ChatEngine.connect('u1')\<close> without an auth key: the global chat is chat
  \<open>0\<close>, the feed and direct chats of \<open>me\<close> are chats \<open>1\<close> and \<open>2\<close>, and \<open>me\<close> is user
  \<open>0\<close>.
\<close>

definition demo_engine :: "string list world" where
  "demo_engine = after (ChatEngine_connect ''u1'' (Some Map.empty) Undefined demo_init)"

text \<open>The room \<open>lobby\<close>, built in that engine without a grant: chat \<open>3\<close>.\<close>

definition demo_lobby :: "string list world" where
  "demo_lobby = snd (new_Chat ''lobby'' True False demo_engine)"

text \<open>The status notification that reports the room \<open>lobby\<close> connected.\<close>

definition lobby_connected :: statusEvent where
  "lobby_connected =
     \<lparr>se_error = False, se_errorText = [], category = ''PNConnectedCategory'',
      affectedChannels = [''chat-engine:chat:public.:lobby'']\<rparr>"

text \<open>
  Sample plugins. A marker plugin appends its name to the string under \<open>trace\<close> in the
  payload and to the plugin state; the rejecting plugin passes an error and no payload.
\<close>

definition marker_handler :: "string \<Rightarrow> string list handler" where
  "marker_handler name =
     (\<lambda>p s.
        (let obj = (case p of None \<Rightarrow> Map.empty | Some obj \<Rightarrow> obj);
             old = (case get_prop obj ''trace'' of Str t \<Rightarrow> t | _ \<Rightarrow> [])
         in (Next (Some (obj(''trace'' \<mapsto> Str (old @ name)))), s @ [name])))"

definition rejecting_handler :: "string list handler" where
  "rejecting_handler = (\<lambda>p s. (Fail (Str ''rejected'') None, s @ [''rejected'']))"

text \<open>A handler that signals failure and passes on the payload it was given.\<close>

definition refusing_handler :: "string list handler" where
  "refusing_handler = (\<lambda>p s. (Fail (Str ''refused'') p, s @ [''refused'']))"

definition sample_plugin :: "string \<Rightarrow> string \<Rightarrow> string list handler \<Rightarrow> string list plugin_module" where
  "sample_plugin name event h =
     \<lparr>namespace = name, extends = (\<lambda>_. False),
      middleware = Some [''emit'' \<mapsto> [event \<mapsto> h], ''on'' \<mapsto> [event \<mapsto> h]]\<rparr>"

text \<open>
  The room \<open>lobby\<close> with two plugins on the event \<open>message\<close>: the rejecting one, then a
  marker registered after it.
\<close>

definition demo_guarded :: "string list world" where
  "demo_guarded =
     plugin 3 (sample_plugin ''late'' ''message'' (marker_handler ''late''))
       (plugin 3 (sample_plugin ''guard'' ''message'' rejecting_handler) demo_lobby)"

text \<open>The same room with the refusing plugin in place of the rejecting one.\<close>

definition demo_refusing :: "string list world" where
  "demo_refusing =
     plugin 3 (sample_plugin ''late'' ''message'' (marker_handler ''late''))
       (plugin 3 (sample_plugin ''guard'' ''message'' refusing_handler) demo_lobby)"

text \<open>
  A presence notification on the channel of the room \<open>lobby\<close>, and the room after the
  participant \<open>u2\<close> has joined it with the state \<open>{name: "Bob"}\<close>.
\<close>

definition lobby_presence :: "string \<Rightarrow> string \<Rightarrow> payload \<Rightarrow> presenceEvent" where
  "lobby_presence action uid st =
     \<lparr>pe_channel = ''chat-engine:chat:public.:lobby'', pe_action = action,
      pe_uuid = uid, pe_state = st\<rparr>"

definition demo_joined :: "string list world" where
  "demo_joined =
     after (onPresence 3 (lobby_presence ''join'' ''u2'' (Some [''name'' \<mapsto> Str ''Bob''])) demo_lobby)"

section \<open>Basic facts\<close>

lemma emitted_in_append:
  "emitted_in c ev (xs @ ys) = emitted_in c ev xs @ emitted_in c ev ys"
  by (induction c ev xs rule: emitted_in.induct) simp_all

lemma local_events_in_append:
  "local_events_in c (xs @ ys) = local_events_in c xs @ local_events_in c ys"
  by (induction c xs rule: local_events_in.induct) simp_all

lemma published_in_append:
  "published_in (xs @ ys) = published_in xs @ published_in ys"
  by (induction xs rule: published_in.induct) simp_all

lemma emitted_in_none:
  "ev \<notin> set (local_events_in c es) \<Longrightarrow> emitted_in c ev es = []"
  by (induction c es rule: local_events_in.induct) (auto split: if_splits)

lemma emitted_none:
  "ev \<notin> set (local_events c w) \<Longrightarrow> emitted c ev w = []"
  by (simp add: emitted_def local_events_def emitted_in_none)

lemma trigger_eq:
  "trigger c ev p w =
     w\<lparr>pstate := snd (on_result c ev p w),
       log := log w @ [LocalEmit c ev (delivered c ev p w)]\<rparr>"
  by (simp add: trigger_def runPluginQueue_def on_result_def delivered_def emit_local_def
      split: prod.splits)

lemma trigger_fields:
  "chat_heap (trigger c ev p w) = chat_heap w"
  "user_heap (trigger c ev p w) = user_heap w"
  "ChatEngine_users (trigger c ev p w) = ChatEngine_users w"
  "ChatEngine_globalChat (trigger c ev p w) = ChatEngine_globalChat w"
  "ChatEngine_me (trigger c ev p w) = ChatEngine_me w"
  "next_user (trigger c ev p w) = next_user w"
  "next_chat (trigger c ev p w) = next_chat w"
  "globalChannel (trigger c ev p w) = globalChannel w"
  "authUrl (trigger c ev p w) = authUrl w"
  "log (trigger c ev p w) = log w @ [LocalEmit c ev (delivered c ev p w)]"
  "pstate (trigger c ev p w) = snd (on_result c ev p w)"
  by (simp_all add: trigger_eq)

lemma on_result_no_handler:
  "no_handler c ''on'' ev w \<Longrightarrow>
   on_result c ev p w =
     ((None, restore c w p), pstate w)"
  by (simp add: on_result_def no_handler_def plugin_queue_def first_task_def)

lemma no_handler_trigger:
  "no_handler c' loc ev' (trigger c ev p w) = no_handler c' loc ev' w"
  by (simp add: no_handler_def trigger_fields)


lemma delivered_no_handler:
  "no_handler c ''on'' ev w \<Longrightarrow> delivered c ev p w = restore c w p"
  by (simp add: delivered_def on_result_no_handler)

lemma restore_user_payload:
  "restore c w (Some [''user'' \<mapsto> x]) = Some [''user'' \<mapsto> x, ''chat'' \<mapsto> ChatRef c]"
  by (simp add: restore_def restore_payload_def get_prop_def js_truthy_def)


lemma dict_get_plain:
  "k \<notin> set prototype_members \<Longrightarrow> dict_get m k = m k"
  by (simp add: dict_get_def split: option.splits)

lemma dict_get_own:
  "m k = Some v \<Longrightarrow> dict_get m k = Some v"
  by (simp add: dict_get_def)

lemma dict_get_None_iff:
  "dict_get m k = None \<longleftrightarrow> m k = None \<and> k \<notin> set prototype_members"
  by (simp add: dict_get_def split: option.splits)

lemma dict_get_inherited:
  "m k = None \<Longrightarrow> k \<in> set prototype_members \<Longrightarrow> dict_get m k = Some (Inherited k)"
  by (simp add: dict_get_def)

lemma dict_put_plain:
  "k \<notin> set prototype_members \<Longrightarrow> dict_put m k v = m(k \<mapsto> v)"
  by (auto simp add: dict_put_def prototype_members_def)

lemma dict_put_other:
  "k' \<noteq> k \<Longrightarrow> dict_put m k v k' = m k'"
  by (simp add: dict_put_def)

lemma dict_put_same:
  "m k = Some v \<Longrightarrow> dict_put m k v = m"
  by (auto simp add: dict_put_def)

lemma and_then_Returned:
  "and_then (Returned w) f = f w"
  by (simp add: and_then_def)

lemma and_then_Thrown:
  "and_then (Thrown e w) f = Thrown e w"
  by (simp add: and_then_def)

lemma after_simps:
  "after (Returned w) = w"
  "after (Thrown e w) = w"
  by (simp_all add: after_def)

section \<open>Constructors and state updates, field by field\<close>

lemma new_Chat_fields:
  "fst (new_Chat ch ac ng w) = next_chat w"
  "next_chat (snd (new_Chat ch ac ng w)) = Suc (next_chat w)"
  "chat_heap (snd (new_Chat ch ac ng w)) =
     (chat_heap w)(next_chat w :=
        \<lparr>channel = chat_channel (globalChannel w) ch ng,
         users = Map.empty, events = Map.empty, connected = False,
         autoConnect = ac, plugins = [], children = []\<rparr>)"
  "user_heap (snd (new_Chat ch ac ng w)) = user_heap w"
  "ChatEngine_users (snd (new_Chat ch ac ng w)) = ChatEngine_users w"
  "ChatEngine_globalChat (snd (new_Chat ch ac ng w)) = ChatEngine_globalChat w"
  "ChatEngine_me (snd (new_Chat ch ac ng w)) = ChatEngine_me w"
  "next_user (snd (new_Chat ch ac ng w)) = next_user w"
  "globalChannel (snd (new_Chat ch ac ng w)) = globalChannel w"
  "authUrl (snd (new_Chat ch ac ng w)) = authUrl w"
  "pstate (snd (new_Chat ch ac ng w)) = pstate w"
  by (simp_all add: new_Chat_def Let_def grant_def onPrep_def connect_def)

lemma new_Chat_log:
  "log (snd (new_Chat ch ac ng w)) =
     log w @
     (if ng then [AuthRequest (authUrl w @ ''/chat'') (chat_channel (globalChannel w) ch ng)]
      else if ac then
        [AddListener (next_chat w),
         Subscribe [chat_channel (globalChannel w) ch ng],
         HereNow (next_chat w) [chat_channel (globalChannel w) ch ng]]
      else [])"
  by (simp add: new_Chat_def Let_def grant_def onPrep_def connect_def)

lemma update_at_fields:
  "chat_heap (update_at a st key w) = chat_heap w"
  "ChatEngine_users (update_at a st key w) = ChatEngine_users w"
  "ChatEngine_globalChat (update_at a st key w) = ChatEngine_globalChat w"
  "ChatEngine_me (update_at a st key w) = ChatEngine_me w"
  "next_user (update_at a st key w) = next_user w"
  "next_chat (update_at a st key w) = next_chat w"
  "globalChannel (update_at a st key w) = globalChannel w"
  "authUrl (update_at a st key w) = authUrl w"
  "pstate (update_at a st key w) = pstate w"
  "log (update_at a st key w) = log w"
  "user_heap (update_at a st key w) =
     (user_heap w)(a := (user_heap w a)
        \<lparr>states := (states (user_heap w a))(key \<mapsto> Object_assign (state_at (user_heap w a) key) st)\<rparr>)"
  by (simp_all add: update_at_def Let_def)

lemma assign_fields:
  "chat_heap (assign a st c w) = chat_heap w"
  "ChatEngine_users (assign a st c w) = ChatEngine_users w"
  "ChatEngine_globalChat (assign a st c w) = ChatEngine_globalChat w"
  "ChatEngine_me (assign a st c w) = ChatEngine_me w"
  "next_user (assign a st c w) = next_user w"
  "next_chat (assign a st c w) = next_chat w"
  "globalChannel (assign a st c w) = globalChannel w"
  "authUrl (assign a st c w) = authUrl w"
  "pstate (assign a st c w) = pstate w"
  "log (assign a st c w) = log w"
  "user_heap (assign a st c w) =
     (user_heap w)(a := (user_heap w a)
        \<lparr>states := (states (user_heap w a))
           (channel (chat_heap w c) \<mapsto>
              Object_assign (state_at (user_heap w a) (channel (chat_heap w c))) st)\<rparr>)"
  by (simp_all add: assign_def User_update_def update_at_fields)

lemma new_User_fields:
  "fst (new_User me uid w) = next_user w"
  "next_user (snd (new_User me uid w)) = Suc (next_user w)"
  "next_chat (snd (new_User me uid w)) = Suc (Suc (next_chat w))"
  "chat_heap (snd (new_User me uid w)) =
     (chat_heap w)
       (next_chat w :=
          \<lparr>channel = chat_channel (globalChannel w)
              (join '':'' [case ChatEngine_globalChat w of None \<Rightarrow> [] | Some g \<Rightarrow> channel (chat_heap w g),
                 ''user'', uid, ''read.'', ''feed'']) False,
           users = Map.empty, events = Map.empty, connected = False,
           autoConnect = me, plugins = [], children = []\<rparr>,
        Suc (next_chat w) :=
          \<lparr>channel = chat_channel (globalChannel w)
              (join '':'' [case ChatEngine_globalChat w of None \<Rightarrow> [] | Some g \<Rightarrow> channel (chat_heap w g),
                 ''user'', uid, ''write.'', ''direct'']) False,
           users = Map.empty, events = Map.empty, connected = False,
           autoConnect = me, plugins = [], children = []\<rparr>)"
  "ChatEngine_users (snd (new_User me uid w)) =
     (if dict_get (ChatEngine_users w) uid = None
      then dict_put (ChatEngine_users w) uid (Identity (next_user w))
      else ChatEngine_users w)"
  "ChatEngine_globalChat (snd (new_User me uid w)) = ChatEngine_globalChat w"
  "ChatEngine_me (snd (new_User me uid w)) = ChatEngine_me w"
  "globalChannel (snd (new_User me uid w)) = globalChannel w"
  "authUrl (snd (new_User me uid w)) = authUrl w"
  "pstate (snd (new_User me uid w)) = pstate w"
  by (auto simp add: new_User_def Let_def case_prod_beta new_Chat_fields assign_fields
      update_at_fields split: option.splits)

lemma new_User_user_heap:
  "user_heap (snd (new_User me uid w)) =
     (user_heap w)(next_user w :=
        \<lparr>uuid = uid,
         states = [(case ChatEngine_globalChat w of
                      None \<Rightarrow> ''undefined''
                    | Some g \<Rightarrow> channel (chat_heap (snd (new_User me uid w)) g)) \<mapsto> Map.empty],
         chats = Map.empty, feed = next_chat w, direct = Suc (next_chat w),
         isMe = me, authData = Undefined\<rparr>)"
  by (auto simp add: new_User_def Let_def case_prod_beta new_Chat_fields assign_fields
      update_at_fields state_at_def Object_assign_def split: option.splits)

lemma new_User_log:
  "log (snd (new_User me uid w)) =
     log w @
     (if me then
        [AddListener (next_chat w),
         Subscribe [chat_channel (globalChannel w)
              (join '':'' [case ChatEngine_globalChat w of None \<Rightarrow> [] | Some g \<Rightarrow> channel (chat_heap w g),
                 ''user'', uid, ''read.'', ''feed'']) False],
         HereNow (next_chat w) [chat_channel (globalChannel w)
              (join '':'' [case ChatEngine_globalChat w of None \<Rightarrow> [] | Some g \<Rightarrow> channel (chat_heap w g),
                 ''user'', uid, ''read.'', ''feed'']) False],
         AddListener (Suc (next_chat w)),
         Subscribe [chat_channel (globalChannel w)
              (join '':'' [case ChatEngine_globalChat w of None \<Rightarrow> [] | Some g \<Rightarrow> channel (chat_heap w g),
                 ''user'', uid, ''write.'', ''direct'']) False],
         HereNow (Suc (next_chat w)) [chat_channel (globalChannel w)
              (join '':'' [case ChatEngine_globalChat w of None \<Rightarrow> [] | Some g \<Rightarrow> channel (chat_heap w g),
                 ''user'', uid, ''write.'', ''direct'']) False]]
      else [])"
proof -
  have "log (snd (new_User me uid w)) =
        log (snd (new_Chat (join '':'' [case ChatEngine_globalChat w of None \<Rightarrow> [] | Some g \<Rightarrow> channel (chat_heap w g),
                 ''user'', uid, ''write.'', ''direct'']) me False
               (snd (new_Chat (join '':'' [case ChatEngine_globalChat w of None \<Rightarrow> [] | Some g \<Rightarrow> channel (chat_heap w g),
                 ''user'', uid, ''read.'', ''feed'']) me False w))))"
    by (simp add: new_User_def Let_def case_prod_beta assign_fields update_at_fields
        del: join.simps split: option.splits)
  then show ?thesis
    by (simp add: new_Chat_log new_Chat_fields del: join.simps)
qed

lemma new_Me_fields:
  "fst (new_Me uid auth w) = next_user w"
  "next_user (snd (new_Me uid auth w)) = Suc (next_user w)"
  "next_chat (snd (new_Me uid auth w)) = Suc (Suc (next_chat w))"
  "chat_heap (snd (new_Me uid auth w)) = chat_heap (snd (new_User True uid w))"
  "ChatEngine_users (snd (new_Me uid auth w)) = ChatEngine_users (snd (new_User True uid w))"
  "ChatEngine_globalChat (snd (new_Me uid auth w)) = ChatEngine_globalChat w"
  "ChatEngine_me (snd (new_Me uid auth w)) = ChatEngine_me w"
  "globalChannel (snd (new_Me uid auth w)) = globalChannel w"
  "pstate (snd (new_Me uid auth w)) = pstate w"
  "log (snd (new_Me uid auth w)) = log (snd (new_User True uid w))"
  "user_heap (snd (new_Me uid auth w)) =
     (user_heap (snd (new_User True uid w)))
       (next_user w := (user_heap (snd (new_User True uid w)) (next_user w))\<lparr>authData := auth\<rparr>)"
  by (simp_all add: new_Me_def case_prod_beta new_User_fields)

lemma Me_update_fields:
  "chat_heap (Me_update a st c w) = chat_heap w"
  "ChatEngine_users (Me_update a st c w) = ChatEngine_users w"
  "ChatEngine_globalChat (Me_update a st c w) = ChatEngine_globalChat w"
  "ChatEngine_me (Me_update a st c w) = ChatEngine_me w"
  "next_user (Me_update a st c w) = next_user w"
  "next_chat (Me_update a st c w) = next_chat w"
  "globalChannel (Me_update a st c w) = globalChannel w"
  "pstate (Me_update a st c w) = pstate w"
  "log (Me_update a st c w) = log w @ [SetState [channel (chat_heap w c)] st]"
  "user_heap (Me_update a st c w) = user_heap (assign a st c w)"
  by (simp_all add: Me_update_def setState_def assign_def User_update_def update_at_fields)

lemma ensure_Event_fields:
  "ChatEngine_users (snd (ensure_Event c ev w)) = ChatEngine_users w"
  "ChatEngine_globalChat (snd (ensure_Event c ev w)) = ChatEngine_globalChat w"
  "ChatEngine_me (snd (ensure_Event c ev w)) = ChatEngine_me w"
  "user_heap (snd (ensure_Event c ev w)) = user_heap w"
  "next_user (snd (ensure_Event c ev w)) = next_user w"
  "next_chat (snd (ensure_Event c ev w)) = next_chat w"
  "globalChannel (snd (ensure_Event c ev w)) = globalChannel w"
  "pstate (snd (ensure_Event c ev w)) = pstate w"
  "channel (chat_heap (snd (ensure_Event c ev w)) c') = channel (chat_heap w c')"
  "users (chat_heap (snd (ensure_Event c ev w)) c') = users (chat_heap w c')"
  "plugins (chat_heap (snd (ensure_Event c ev w)) c') = plugins (chat_heap w c')"
  "connected (chat_heap (snd (ensure_Event c ev w)) c') = connected (chat_heap w c')"
  "log (snd (ensure_Event c ev w)) =
     log w @ (if events (chat_heap w c) ev = None then [AddMessageListener c ev] else [])"
  by (simp_all add: ensure_Event_def Let_def split: option.splits)

lemma addChat_fields:
  "chat_heap (addChat a c st w) = chat_heap w"
  "ChatEngine_users (addChat a c st w) = ChatEngine_users w"
  "ChatEngine_globalChat (addChat a c st w) = ChatEngine_globalChat w"
  "ChatEngine_me (addChat a c st w) = ChatEngine_me w"
  "next_user (addChat a c st w) = next_user w"
  "next_chat (addChat a c st w) = next_chat w"
  "globalChannel (addChat a c st w) = globalChannel w"
  "pstate (addChat a c st w) = pstate w"
  "log (addChat a c st w) = log w"
  "state_at (user_heap (addChat a c st w) a) (channel (chat_heap w c)) =
     Object_assign (state_at (user_heap w a) (channel (chat_heap w c))) st"
  by (simp_all add: addChat_def Let_def assign_fields state_at_def)

lemma leave_fields:
  "chat_heap (leave c w) = chat_heap w"
  "user_heap (leave c w) = user_heap w"
  "ChatEngine_users (leave c w) = ChatEngine_users w"
  "pstate (leave c w) = pstate w"
  "log (leave c w) = log w @ [Unsubscribe [channel (chat_heap w c)]]"
  by (simp_all add: leave_def)

lemma plugin_fields:
  "plugins (chat_heap (plugin c m w) c) = plugins (chat_heap w c) @ [m]"
  "pstate (plugin c m w) = pstate w"
  "log (plugin c m w) = log w"
  "channel (chat_heap (plugin c m w) c') = channel (chat_heap w c')"
  "users (chat_heap (plugin c m w) c') = users (chat_heap w c')"
  "ChatEngine_users (plugin c m w) = ChatEngine_users w"
  "events (chat_heap (plugin c m w) c') = events (chat_heap w c')"
  "ChatEngine_me (plugin c m w) = ChatEngine_me w"
  "user_heap (plugin c m w) = user_heap w"
  by (simp_all add: plugin_def Let_def)

section \<open>Channel names: auxiliary facts\<close>

lemma indexOf_from_minus1_iff:
  "indexOf_from s sub i = - 1 \<longleftrightarrow> \<not> sublist sub s"
  by (induction s arbitrary: i) (auto simp: sublist_Cons_right)

lemma indexOf_minus1_iff: "indexOf s sub = - 1 \<longleftrightarrow> \<not> sublist sub s"
  by (simp add: indexOf_def indexOf_from_minus1_iff)

lemma chat_channel_fresh:
  "\<not> sublist gc ident \<Longrightarrow>
   chat_channel gc ident needGrant =
     gc @ '':chat:'' @ (if needGrant then ''private.'' else ''public.'') @ '':'' @ ident"
  by (simp add: chat_channel_def indexOf_minus1_iff)

lemma chat_channel_kept:
  "sublist gc ch \<Longrightarrow> chat_channel gc ch needGrant = ch"
  by (simp add: chat_channel_def indexOf_minus1_iff)

lemma indexOf_prefix: "indexOf (gc @ rest) gc = 0"
proof (cases "gc @ rest")
  case Nil
  then show ?thesis by (simp add: indexOf_def)
next
  case (Cons x xs)
  have "prefix gc (gc @ rest)" by simp
  then have "prefix gc (x # xs)" by (simp only: Cons)
  then show ?thesis by (simp add: indexOf_def Cons)
qed

lemma chat_channel_prefixed: "chat_channel gc (gc @ rest) needGrant = gc @ rest"
  by (simp add: chat_channel_def indexOf_prefix)

lemma chat_channel_self: "chat_channel gc gc needGrant = gc"
  using chat_channel_prefixed[of gc "[]" needGrant] by simp

lemma identity_channels:
  assumes "ChatEngine_globalChat w = Some g" and "channel (chat_heap w g) = globalChannel w"
  shows "channel (chat_heap (snd (new_User me uid w)) (feed (user_heap (snd (new_User me uid w)) (fst (new_User me uid w)))))
         = globalChannel w @ '':user:'' @ uid @ '':read.:feed''"
    and "channel (chat_heap (snd (new_User me uid w)) (direct (user_heap (snd (new_User me uid w)) (fst (new_User me uid w)))))
         = globalChannel w @ '':user:'' @ uid @ '':write.:direct''"
  using assms chat_channel_prefixed[of "globalChannel w" "'':user:'' @ uid @ '':read.:feed''" False]
    chat_channel_prefixed[of "globalChannel w" "'':user:'' @ uid @ '':write.:direct''" False]
  by (simp_all add: new_User_fields new_User_user_heap)

section \<open>Ensuring an identity; \<open>createUser\<close>\<close>

lemma ensure_user_known:
  "ChatEngine_users w uid = Some v \<Longrightarrow> ensure_user uid w = w"
  by (simp add: ensure_user_def dict_get_own dict_put_same)

lemma ensure_user_fresh:
  assumes "dict_get (ChatEngine_users w) uid = None"
  shows "ensure_user uid w = snd (new_User False uid w)"
proof -
  have "dict_put (dict_put (ChatEngine_users w) uid (Identity (next_user w))) uid
          (Identity (next_user w))
        = dict_put (ChatEngine_users w) uid (Identity (next_user w))"
    by (simp add: dict_put_def)
  then show ?thesis
    using assms by (simp add: ensure_user_def case_prod_beta new_User_fields)
qed

lemma ensure_user_inherited:
  assumes "ChatEngine_users w uid = None" and "uid \<in> set prototype_members"
  shows "ensure_user uid w =
           w\<lparr>ChatEngine_users := dict_put (ChatEngine_users w) uid (Inherited uid)\<rparr>"
  using assms by (simp add: ensure_user_def dict_get_inherited)

lemma ensure_user_get:
  "dict_get (ChatEngine_users (ensure_user uid w)) uid =
     (case dict_get (ChatEngine_users w) uid of
        Some v \<Rightarrow> Some v
      | None \<Rightarrow> Some (Identity (next_user w)))"
proof (cases "dict_get (ChatEngine_users w) uid")
  case None
  then have "uid \<noteq> ''__proto__''"
    by (auto simp add: dict_get_None_iff prototype_members_def)
  with None show ?thesis
    by (simp add: ensure_user_fresh new_User_fields dict_put_def dict_get_def)
next
  case (Some v)
  then show ?thesis
    by (auto simp add: ensure_user_def dict_put_def dict_get_def prototype_members_def
        split: option.splits if_splits)
qed

lemma plain_id_get:
  "plain_id uid w \<Longrightarrow>
     dict_get (ChatEngine_users (ensure_user uid w)) uid = Some (Identity (identity_for uid w))"
  by (auto simp add: ensure_user_get plain_id_def identity_for_def dict_get_plain
      split: option.splits slot.splits)

lemma ensure_user_table:
  assumes "plain_id uid w"
  shows "ChatEngine_users (ensure_user uid w) =
           (ChatEngine_users w)(uid \<mapsto> Identity (identity_for uid w))"
proof (cases "ChatEngine_users w uid")
  case None
  with assms have "dict_get (ChatEngine_users w) uid = None"
    by (simp add: plain_id_def dict_get_plain)
  with None assms show ?thesis
    by (simp add: ensure_user_fresh new_User_fields identity_for_def dict_put_plain plain_id_def)
next
  case (Some v)
  with assms obtain a where "v = Identity a"
    by (cases v) (auto simp add: plain_id_def)
  with Some show ?thesis
    by (auto simp add: ensure_user_known identity_for_def)
qed

lemma ensure_user_fields:
  "log (ensure_user uid w) = log w"
  "pstate (ensure_user uid w) = pstate w"
  "globalChannel (ensure_user uid w) = globalChannel w"
  "ChatEngine_globalChat (ensure_user uid w) = ChatEngine_globalChat w"
  "ChatEngine_me (ensure_user uid w) = ChatEngine_me w"
  by (auto simp add: ensure_user_def case_prod_beta new_User_fields new_User_log
      split: option.splits)

lemma ensure_user_chat_heap:
  "c < next_chat w \<Longrightarrow> chat_heap (ensure_user uid w) c = chat_heap w c"
  by (auto simp add: ensure_user_def case_prod_beta new_User_fields split: option.splits)

lemma ensure_user_next:
  "next_chat w \<le> next_chat (ensure_user uid w)"
  "next_user w \<le> next_user (ensure_user uid w)"
  by (auto simp add: ensure_user_def case_prod_beta new_User_fields split: option.splits)


text \<open>The two ways \<open>createUser\<close> ends.\<close>

lemma createUser_plain:
  assumes "plain_id uid w"
  shows "createUser c uid st force w =
           Returned
             (let a = identity_for uid w;
                  w2 = addChat a c st (ensure_user uid w);
                  w3 = (if dict_get (users (chat_heap w2 c)) uid = None \<or> force
                        then trigger c ''$.online.new'' (Some [''user'' \<mapsto> UserRef a]) w2
                        else w2)
              in w3\<lparr>chat_heap := (chat_heap w3)
                      (c := (chat_heap w3 c)\<lparr>users := (users (chat_heap w3 c))(uid \<mapsto> Identity a)\<rparr>)\<rparr>)"
proof -
  have "uid \<notin> set prototype_members"
    using assms by (simp add: plain_id_def)
  then show ?thesis
    by (simp add: createUser_def Let_def plain_id_get[OF assms] dict_put_plain)
qed


lemma createUser_cases:
  "(\<exists>w'. createUser c uid st force w = Returned w')
   \<or> createUser c uid st force w = Thrown TypeError (ensure_user uid w)"
  by (simp add: createUser_def Let_def split: option.splits slot.splits)

lemma createUser_Returned_iff:
  "(\<exists>w'. createUser c uid st force w = Returned w') \<longleftrightarrow>
     (\<forall>k. dict_get (ChatEngine_users w) uid \<noteq> Some (Inherited k))"
  by (auto simp add: createUser_def Let_def ensure_user_get split: option.splits slot.splits)

lemma createUser_table:
  assumes "plain_id uid w"
  shows "ChatEngine_users (after (createUser c uid st force w)) =
           (ChatEngine_users w)(uid \<mapsto> Identity (identity_for uid w))"
  by (simp add: createUser_plain[OF assms] after_simps Let_def trigger_fields addChat_fields
      ensure_user_table[OF assms])

lemma createUser_misc:
  "globalChannel (after (createUser c uid st force w)) = globalChannel w"
  "ChatEngine_globalChat (after (createUser c uid st force w)) = ChatEngine_globalChat w"
  "ChatEngine_me (after (createUser c uid st force w)) = ChatEngine_me w"
  "next_chat w \<le> next_chat (after (createUser c uid st force w))"
  "next_user w \<le> next_user (after (createUser c uid st force w))"
  by (simp_all add: createUser_def Let_def after_simps trigger_fields addChat_fields
      ensure_user_fields ensure_user_next split: option.splits slot.splits)

lemma createUser_chat:
  assumes "c < next_chat w" and "plain_id uid w"
  shows "chat_heap (after (createUser c uid st force w)) c =
           (chat_heap w c)\<lparr>users := (users (chat_heap w c))(uid \<mapsto> Identity (identity_for uid w))\<rparr>"
  using assms(1)
  by (simp add: createUser_plain[OF assms(2)] after_simps Let_def trigger_fields addChat_fields
      ensure_user_chat_heap)

lemma createUser_other_chat:
  assumes "c' < next_chat w" and "c' \<noteq> c"
  shows "chat_heap (after (createUser c uid st force w)) c' = chat_heap w c'"
  using assms
  by (simp add: createUser_def Let_def after_simps trigger_fields addChat_fields
      ensure_user_chat_heap split: option.splits slot.splits)

lemma createUser_log:
  assumes "c < next_chat w" and "plain_id uid w"
  shows "\<exists>p. log (after (createUser c uid st force w)) =
           log w @ (if users (chat_heap w c) uid = None \<or> force
                    then [LocalEmit c ''$.online.new'' p] else [])"
proof -
  have "dict_get (users (chat_heap w c)) uid = users (chat_heap w c) uid"
    using assms(2) by (simp add: plain_id_def dict_get_plain)
  then show ?thesis
    using assms(1)
    by (simp add: createUser_plain[OF assms(2)] after_simps Let_def trigger_fields addChat_fields
        ensure_user_chat_heap ensure_user_fields)
qed

lemma createUser_log_no_handler:
  assumes "c < next_chat w" and "no_handler c ''on'' ''$.online.new'' w" and "plain_id uid w"
  shows "log (after (createUser c uid st force w)) =
           log w @ (if users (chat_heap w c) uid = None \<or> force
                    then [LocalEmit c ''$.online.new''
                            (Some [''user'' \<mapsto> UserRef (identity_for uid w), ''chat'' \<mapsto> ChatRef c])]
                    else [])"
proof -
  have "no_handler c ''on'' ''$.online.new''
          (addChat (identity_for uid w) c st (ensure_user uid w))"
    using assms by (simp add: no_handler_def addChat_fields ensure_user_chat_heap)
  moreover have "dict_get (users (chat_heap w c)) uid = users (chat_heap w c) uid"
    using assms(3) by (simp add: plain_id_def dict_get_plain)
  ultimately show ?thesis
    using assms(1)
    by (simp add: createUser_plain[OF assms(3)] after_simps Let_def trigger_fields addChat_fields
        ensure_user_chat_heap ensure_user_fields delivered_no_handler restore_user_payload)
qed

lemma createUser_pstate_no_handler:
  assumes "c < next_chat w" and "no_handler c ''on'' ''$.online.new'' w"
  shows "pstate (after (createUser c uid st force w)) = pstate w"
proof -
  have "\<And>a. no_handler c ''on'' ''$.online.new'' (addChat a c st (ensure_user uid w))"
    using assms by (simp add: no_handler_def addChat_fields ensure_user_chat_heap)
  then show ?thesis
    by (simp add: createUser_def Let_def after_simps trigger_fields addChat_fields
        ensure_user_fields on_result_no_handler split: option.splits slot.splits)
qed


text \<open>Objects are allocated only for an id under which the table reads nothing.\<close>

lemma ensure_user_alloc:
  "next_user (ensure_user uid w) =
     (if dict_get (ChatEngine_users w) uid = None then Suc (next_user w) else next_user w)"
  "next_chat (ensure_user uid w) =
     (if dict_get (ChatEngine_users w) uid = None then Suc (Suc (next_chat w)) else next_chat w)"
  by (auto simp add: ensure_user_def case_prod_beta new_User_fields split: option.splits)

lemma createUser_alloc:
  "next_user (after (createUser c uid st force w)) =
     (if dict_get (ChatEngine_users w) uid = None then Suc (next_user w) else next_user w)"
  "next_chat (after (createUser c uid st force w)) =
     (if dict_get (ChatEngine_users w) uid = None then Suc (Suc (next_chat w)) else next_chat w)"
  by (simp_all add: createUser_def Let_def after_simps trigger_fields addChat_fields
      ensure_user_alloc split: option.splits slot.splits)

section \<open>How transitions change identities\<close>

lemma new_User_rosters:
  "users (chat_heap (snd (new_User me uid w)) c') u = Some x \<Longrightarrow> users (chat_heap w c') u = Some x"
  by (simp add: new_User_fields split: if_splits)

lemma ensure_user_rosters:
  "users (chat_heap (ensure_user uid w) c') u = Some x \<Longrightarrow> users (chat_heap w c') u = Some x"
  by (auto simp add: ensure_user_def case_prod_beta dest: new_User_rosters split: option.splits)

lemma evolves_refl: "evolves w w"
  by (simp add: evolves_def extends_table_def)

lemma evolves_trans:
  assumes "evolves w1 w2" and "evolves w2 w3"
  shows "evolves w1 w3"
  unfolding evolves_def
proof (intro conjI allI impI)
  show "extends_table w1 w3"
    using assms by (simp add: evolves_def extends_table_def)
  show "next_user w1 \<le> next_user w3"
    using assms by (simp add: evolves_def)
  show "uuid (user_heap w3 a) = uuid (user_heap w1 a)" if "a < next_user w1" for a
  proof -
    have "a < next_user w2" using that assms(1) by (simp add: evolves_def)
    then show ?thesis using that assms by (simp add: evolves_def)
  qed
  have n12: "next_user w1 \<le> next_user w2" and n23: "next_user w2 \<le> next_user w3"
    using assms by (simp_all add: evolves_def)
  show "ChatEngine_users w1 uid = Some v
        \<or> (\<exists>a. v = Identity a \<and> next_user w1 \<le> a \<and> a < next_user w3
              \<and> uuid (user_heap w3 a) = uid \<and> uid \<notin> set prototype_members)
        \<or> (v = Inherited uid \<and> uid \<in> set prototype_members)"
    if h: "ChatEngine_users w3 uid = Some v" for uid v
  proof -
    from h assms(2) consider "ChatEngine_users w2 uid = Some v"
      | a where "v = Identity a" "next_user w2 \<le> a" "a < next_user w3"
          "uuid (user_heap w3 a) = uid" "uid \<notin> set prototype_members"
      | "v = Inherited uid \<and> uid \<in> set prototype_members"
      unfolding evolves_def by blast
    then show ?thesis
    proof cases
      case 1
      with assms(1) consider "ChatEngine_users w1 uid = Some v"
        | a where "v = Identity a" "next_user w1 \<le> a" "a < next_user w2"
            "uuid (user_heap w2 a) = uid" "uid \<notin> set prototype_members"
        | "v = Inherited uid \<and> uid \<in> set prototype_members"
        unfolding evolves_def by blast
      then show ?thesis
      proof cases
        case 1
        then show ?thesis by simp
      next
        case 2
        moreover have "uuid (user_heap w3 a) = uuid (user_heap w2 a)"
          using 2 assms(2) by (simp add: evolves_def)
        ultimately show ?thesis using n23 by simp
      next
        case 3
        then show ?thesis by simp
      qed
    next
      case 2
      then show ?thesis using n12 by simp
    next
      case 3
      then show ?thesis by simp
    qed
  qed
  show "users (chat_heap w1 c) uid = Some v
        \<or> ((\<exists>a. v = Identity a) \<and> ChatEngine_users w3 uid = Some v)"
    if h: "users (chat_heap w3 c) uid = Some v" for c uid v
  proof -
    from h assms(2) consider "users (chat_heap w2 c) uid = Some v"
      | "(\<exists>a. v = Identity a) \<and> ChatEngine_users w3 uid = Some v"
      unfolding evolves_def by blast
    then show ?thesis
    proof cases
      case 1
      with assms(1) consider "users (chat_heap w1 c) uid = Some v"
        | "(\<exists>a. v = Identity a) \<and> ChatEngine_users w2 uid = Some v"
        unfolding evolves_def by blast
      then show ?thesis
      proof cases
        case 1
        then show ?thesis by simp
      next
        case 2
        then have "ChatEngine_users w3 uid = Some v"
          using assms(2) by (simp add: evolves_def extends_table_def)
        with 2 show ?thesis by simp
      qed
    next
      case 2
      then show ?thesis by simp
    qed
  qed
qed

text \<open>A transition that writes neither table, rosters, ids nor the allocation counter.\<close>

lemma evolves_same:
  assumes "ChatEngine_users w' = ChatEngine_users w" and "next_user w' = next_user w"
    and "\<And>a. uuid (user_heap w' a) = uuid (user_heap w a)"
    and "\<And>c. users (chat_heap w' c) = users (chat_heap w c)"
  shows "evolves w w'"
  using assms by (simp add: evolves_def extends_table_def)

lemma evolves_roster_in_table:
  assumes "roster_in_table w" and "evolves w w'"
  shows "roster_in_table w'"
  unfolding roster_in_table_def
proof (intro allI impI)
  fix c uid v
  assume "users (chat_heap w' c) uid = Some v"
  with assms(2) consider "users (chat_heap w c) uid = Some v"
    | "(\<exists>a. v = Identity a) \<and> ChatEngine_users w' uid = Some v"
    unfolding evolves_def by blast
  then show "(\<exists>a. v = Identity a) \<and> ChatEngine_users w' uid = Some v"
  proof cases
    case 1
    then have "(\<exists>a. v = Identity a) \<and> ChatEngine_users w uid = Some v"
      using assms(1) by (simp add: roster_in_table_def)
    then show ?thesis
      using assms(2) by (simp add: evolves_def extends_table_def)
  next
    case 2
    then show ?thesis .
  qed
qed

lemma evolves_table_wf:
  assumes "table_wf w" and "evolves w w'"
  shows "table_wf w'"
  unfolding table_wf_def
proof (intro allI impI)
  fix uid v
  assume "ChatEngine_users w' uid = Some v"
  with assms(2) consider "ChatEngine_users w uid = Some v"
    | a where "v = Identity a" "next_user w \<le> a" "a < next_user w'"
        "uuid (user_heap w' a) = uid" "uid \<notin> set prototype_members"
    | "v = Inherited uid \<and> uid \<in> set prototype_members"
    unfolding evolves_def by blast
  then show "case v of
               Identity a \<Rightarrow>
                 a < next_user w' \<and> uuid (user_heap w' a) = uid \<and> uid \<notin> set prototype_members
             | Inherited k \<Rightarrow> k = uid \<and> uid \<in> set prototype_members"
  proof cases
    case 1
    then have "case v of
               Identity a \<Rightarrow>
                 a < next_user w \<and> uuid (user_heap w a) = uid \<and> uid \<notin> set prototype_members
             | Inherited k \<Rightarrow> k = uid \<and> uid \<in> set prototype_members"
      using assms(1) by (simp add: table_wf_def)
    then show ?thesis
      using assms(2) unfolding evolves_def by (auto split: slot.splits)
  next
    case 2
    then show ?thesis by simp
  next
    case 3
    then show ?thesis by simp
  qed
qed


subsection \<open>The operations, one by one\<close>

lemma evolves_trigger: "evolves w (trigger c ev p w)"
  by (rule evolves_same) (simp_all add: trigger_fields)

lemma evolves_log: "evolves w (w\<lparr>log := l\<rparr>)"
  by (rule evolves_same) simp_all

lemma evolves_pstate: "evolves w (w\<lparr>pstate := s\<rparr>)"
  by (rule evolves_same) simp_all

lemma evolves_connect: "evolves w (connect c w)"
  by (simp add: connect_def evolves_log evolves_refl)

lemma evolves_onPrep: "evolves w (onPrep c w)"
  by (simp add: onPrep_def evolves_connect evolves_refl)

lemma evolves_grant_response: "evolves w (grant_response c w)"
  by (simp add: grant_response_def evolves_onPrep)

lemma evolves_leave: "evolves w (leave c w)"
  by (simp add: leave_def evolves_log)

lemma evolves_setState: "evolves w (setState c st w)"
  by (simp add: setState_def evolves_log)

lemma evolves_plugin: "evolves w (plugin c m w)"
  by (rule evolves_same) (simp_all add: plugin_def Let_def)

lemma evolves_ensure_Event: "evolves w (snd (ensure_Event c ev w))"
  by (rule evolves_same) (simp_all add: ensure_Event_fields)

lemma evolves_publish: "evolves w (publish ch ev m w)"
  by (simp add: publish_def evolves_log)

lemma evolves_update_at: "evolves w (update_at a st key w)"
  by (rule evolves_same) (simp_all add: update_at_fields)

lemma evolves_assign: "evolves w (assign a st c w)"
  by (simp add: assign_def User_update_def evolves_update_at)

lemma evolves_Me_update: "evolves w (Me_update a st c w)"
  by (rule evolves_same) (simp_all add: Me_update_fields assign_fields)

lemma evolves_addChat: "evolves w (addChat a c st w)"
  by (rule evolves_same) (simp_all add: addChat_def Let_def assign_fields)

lemma evolves_onStatus: "evolves w (onStatus c se w)"
  by (rule evolves_same) (simp_all add: onStatus_def Let_def trigger_fields)

lemma evolves_new_Chat: "evolves w (snd (new_Chat ch ac ng w))"
  unfolding evolves_def extends_table_def
  by (auto simp add: new_Chat_fields split: if_splits)

lemma evolves_new_User: "evolves w (snd (new_User me uid w))"
proof (cases "dict_get (ChatEngine_users w) uid")
  case None
  then have "ChatEngine_users w uid = None" and "uid \<notin> set prototype_members"
    by (simp_all add: dict_get_None_iff)
  with None show ?thesis
    unfolding evolves_def extends_table_def
    by (auto simp add: new_User_fields new_User_user_heap dict_put_plain
        dest: new_User_rosters split: if_splits)
next
  case (Some v)
  then show ?thesis
    unfolding evolves_def extends_table_def
    by (auto simp add: new_User_fields new_User_user_heap dest: new_User_rosters split: if_splits)
qed

lemma evolves_new_Me: "evolves w (snd (new_Me uid auth w))"
proof -
  have "evolves (snd (new_User True uid w)) (snd (new_Me uid auth w))"
    by (rule evolves_same) (simp_all add: new_Me_fields new_User_fields)
  with evolves_new_User show ?thesis by (rule evolves_trans)
qed

lemma evolves_ensure_user: "evolves w (ensure_user uid w)"
proof (cases "dict_get (ChatEngine_users w) uid")
  case None
  then show ?thesis by (simp add: ensure_user_fresh evolves_new_User)
next
  case (Some v)
  show ?thesis
  proof (cases "ChatEngine_users w uid")
    case None
    with Some have "uid \<in> set prototype_members"
      by (simp add: dict_get_def split: if_splits)
    with None show ?thesis
      unfolding evolves_def extends_table_def
      by (auto simp add: ensure_user_inherited dict_put_def split: if_splits)
  next
    case (Some v')
    then show ?thesis by (simp add: ensure_user_known evolves_refl)
  qed
qed

lemma evolves_roster_write:
  assumes "ChatEngine_users w uid = Some (Identity a)"
  shows "evolves w (w\<lparr>chat_heap := (chat_heap w)
           (c := (chat_heap w c)\<lparr>users := dict_put (users (chat_heap w c)) uid (Identity a)\<rparr>)\<rparr>)"
  using assms unfolding evolves_def extends_table_def by (auto simp add: dict_put_def split: if_splits)

lemma evolves_roster_delete:
  "evolves w (w\<lparr>chat_heap := (chat_heap w)(c := (chat_heap w c)\<lparr>users := (users (chat_heap w c))(uid := None)\<rparr>)\<rparr>)"
  unfolding evolves_def extends_table_def by (auto split: if_splits)

lemma dict_get_Identity:
  "dict_get m k = Some (Identity a) \<Longrightarrow> m k = Some (Identity a)"
  by (simp add: dict_get_def split: option.splits if_splits)

lemma evolves_createUser: "evolves w (after (createUser c uid st force w))"
proof -
  let ?w1 = "ensure_user uid w"
  have e1: "evolves w ?w1" by (rule evolves_ensure_user)
  show ?thesis
  proof (cases "\<exists>a. dict_get (ChatEngine_users ?w1) uid = Some (Identity a)")
    case False
    then have "createUser c uid st force w = Thrown TypeError ?w1"
      by (auto simp add: createUser_def Let_def split: option.splits slot.splits)
    with e1 show ?thesis by (simp add: after_simps)
  next
    case True
    then obtain a where a: "dict_get (ChatEngine_users ?w1) uid = Some (Identity a)" ..
    let ?w2 = "addChat a c st ?w1"
    let ?w3 = "if dict_get (users (chat_heap ?w2 c)) uid = None \<or> force
               then trigger c ''$.online.new'' (Some [''user'' \<mapsto> UserRef a]) ?w2 else ?w2"
    have e2: "evolves ?w1 ?w2" by (rule evolves_addChat)
    have e3: "evolves ?w2 ?w3" by (simp add: evolves_trigger evolves_refl)
    have t3: "ChatEngine_users ?w3 uid = Some (Identity a)"
      using dict_get_Identity[OF a] by (simp add: trigger_fields addChat_fields)
    have e4: "evolves ?w3 (after (createUser c uid st force w))"
      using evolves_roster_write[OF t3, of c]
      by (simp add: createUser_def Let_def a after_simps)
    show ?thesis
      using e1 e2 e3 e4 by (blast intro: evolves_trans)
  qed
qed

lemma evolves_and_then:
  assumes "evolves w (after r)" and "\<And>w'. evolves w' (after (f w'))"
  shows "evolves w (after (and_then r f))"
proof (cases r)
  case (Returned w1)
  with assms(1) have "evolves w w1" by (simp add: after_simps)
  moreover have "evolves w1 (after (f w1))" by (rule assms(2))
  ultimately show ?thesis
    using Returned by (simp add: and_then_Returned evolves_trans)
next
  case (Thrown e w1)
  with assms(1) show ?thesis by (simp add: and_then_Thrown)
qed

lemma evolves_userUpdate: "evolves w (after (userUpdate c uid st w))"
proof -
  let ?w1 = "ensure_user uid w"
  have e1: "evolves w ?w1" by (rule evolves_ensure_user)
  have e2: "evolves ?w1 (after (if dict_get (users (chat_heap ?w1 c)) uid = None
                                then createUser c uid st False ?w1 else Returned ?w1))"
    by (simp add: evolves_createUser evolves_refl after_simps)
  have e3: "evolves w2 (after (case dict_get (users (chat_heap w2 c)) uid of
                    Some (Identity b) \<Rightarrow>
                      Returned
                        (trigger c ''$.state''
                           (Some [''user'' \<mapsto> UserRef b,
                                  ''state'' \<mapsto> Obj (User_state b c (assign b st c w2))])
                           (assign b st c w2))
                  | _ \<Rightarrow> Thrown TypeError w2))" for w2 :: "'a world"
    by (auto simp add: Let_def after_simps evolves_refl
        intro: evolves_trans[OF evolves_assign evolves_trigger] split: option.splits slot.splits)
  have "evolves ?w1 (after (userUpdate c uid st w))"
    unfolding userUpdate_def Let_def using e2 e3 by (rule evolves_and_then)
  with e1 show ?thesis by (rule evolves_trans)
qed

lemma evolves_userLeave: "evolves w (userLeave c uid w)"
proof (cases "dict_get (users (chat_heap w c)) uid")
  case None
  then show ?thesis by (simp add: userLeave_def evolves_refl)
next
  case (Some v)
  let ?w1 = "trigger c ''$.offline.leave'' (Some [''user'' \<mapsto> slot_val v]) w"
  have "evolves ?w1 (userLeave c uid w)"
    using evolves_roster_delete[of ?w1 c uid] Some by (simp add: userLeave_def Let_def)
  with evolves_trigger show ?thesis by (rule evolves_trans)
qed

lemma evolves_userDisconnect: "evolves w (userDisconnect c uid w)"
  by (simp add: userDisconnect_def evolves_trigger evolves_refl split: option.splits)

lemma evolves_onPresence: "evolves w (after (onPresence c pe w))"
proof (cases "channel (chat_heap w c) = pe_channel pe")
  case False
  then show ?thesis by (simp add: onPresence_def after_simps evolves_refl)
next
  case True
  have j: "evolves w (after (if pe_action pe = ''join'' then
                   and_then (createUser c (pe_uuid pe) (pe_state pe) False w)
                     (\<lambda>w'. Returned
                        (trigger c ''$.online.join''
                           (Some [''user'' \<mapsto> table_value (pe_uuid pe) w']) w'))
                 else Returned w))"
    by (auto simp add: after_simps evolves_refl evolves_trigger
        intro!: evolves_and_then evolves_createUser)
  have l: "evolves w1 (after (Returned (if pe_action pe = ''leave''
                                then userLeave c (pe_uuid pe) w1 else w1)))" for w1 :: "'a world"
    by (simp add: after_simps evolves_userLeave evolves_refl)
  have t: "evolves w2 (after (Returned (if pe_action pe = ''timeout''
                             then userDisconnect c (pe_uuid pe) w2 else w2)))" for w2 :: "'a world"
    by (simp add: after_simps evolves_userDisconnect evolves_refl)
  have s: "evolves w3 (after (if pe_action pe = ''state-change''
                then userUpdate c (pe_uuid pe) (pe_state pe) w3
                else Returned w3))" for w3 :: "'a world"
    by (simp add: after_simps evolves_userUpdate evolves_refl)
  show ?thesis
    unfolding onPresence_def using True
    by (simp add: evolves_and_then[OF evolves_and_then[OF evolves_and_then[OF j l] t] s])
qed

lemma evolves_fold_userUpdate:
  "evolves w (after r) \<Longrightarrow>
   evolves w (after (fold (\<lambda>(uid, st) r. and_then r (userUpdate c uid st)) occupants r))"
proof (induction occupants arbitrary: r)
  case Nil
  then show ?case by simp
next
  case (Cons x xs)
  have "evolves w (after (and_then r (userUpdate c (fst x) (snd x))))"
    using Cons.prems evolves_userUpdate by (rule evolves_and_then)
  then show ?case
    using Cons.IH[of "and_then r (userUpdate c (fst x) (snd x))"]
    by (simp add: case_prod_beta)
qed

lemma evolves_onHereNow: "evolves w (after (onHereNow c err occupants w))"
  by (simp add: onHereNow_def evolves_log evolves_fold_userUpdate after_simps evolves_refl
      split: option.splits)

lemma evolves_Event_onMessage: "evolves w (Event_onMessage c ev ch m w)"
  by (simp add: Event_onMessage_def evolves_trigger evolves_refl split: option.splits)

lemma evolves_emit: "evolves w (after (emit c ev data w))"
proof -
  have l: "evolves w' (after (emit_last c ev err p w'))" for w' :: "'a world" and err p
    by (simp add: emit_last_def after_def case_prod_beta evolves_refl
        evolves_trans[OF evolves_ensure_Event evolves_publish] split: option.splits)
  show ?thesis
    using evolves_trans[OF evolves_pstate l]
    by (simp add: emit_def runPluginQueue_def split: prod.splits)
qed

lemma evolves_field_updates:
  "evolves w (w\<lparr>ChatEngine_globalChat := g\<rparr>)"
  "evolves w (w\<lparr>ChatEngine_me := m\<rparr>)"
  by (rule evolves_same; simp)+

lemma evolves_ChatEngine_connect: "evolves w (after (ChatEngine_connect uid st auth w))"
proof -
  let ?w1 = "snd (new_Chat (globalChannel w) True False w)"
  let ?w2 = "?w1\<lparr>ChatEngine_globalChat := Some (next_chat w)\<rparr>"
  let ?w3 = "snd (new_Me uid auth ?w2)"
  let ?w4 = "?w3\<lparr>ChatEngine_me := Some (next_user w)\<rparr>"
  have eq: "ChatEngine_connect uid st auth w =
              and_then (createUser (next_chat w) uid st False ?w4)
                (\<lambda>w5. Returned (snd (ensure_Event (next_chat w) ''$.connected''
                                  (Me_update (next_user w) st (next_chat w) w5))))"
    by (simp add: ChatEngine_connect_def case_prod_beta Let_def new_Chat_fields new_Me_fields)
  have "evolves w ?w1" by (rule evolves_new_Chat)
  moreover have "evolves ?w1 ?w2" by (rule evolves_field_updates)
  moreover have "evolves ?w2 ?w3" by (rule evolves_new_Me)
  moreover have "evolves ?w3 ?w4" by (rule evolves_field_updates)
  ultimately have e4: "evolves w ?w4" by (blast intro: evolves_trans)
  have "evolves ?w4 (after (ChatEngine_connect uid st auth w))"
    unfolding eq
    by (rule evolves_and_then[OF evolves_createUser])
      (simp add: after_simps evolves_trans[OF evolves_Me_update evolves_ensure_Event])
  with e4 show ?thesis by (rule evolves_trans)
qed

lemma evolves_step: "evolves w (step act w)"
  by (cases act)
    (simp_all add: evolves_new_Chat evolves_new_User evolves_ChatEngine_connect evolves_createUser
      evolves_grant_response evolves_connect evolves_ensure_Event evolves_plugin evolves_emit
      evolves_leave evolves_Me_update evolves_onStatus evolves_onHereNow evolves_onPresence
      evolves_Event_onMessage evolves_refl split: option.splits)

lemma init_invariants: "roster_in_table (init gc url s)" "table_wf (init gc url s)"
  by (simp_all add: roster_in_table_def table_wf_def init_def blank_chat_def)

lemma reachable_invariants:
  "reachable w \<Longrightarrow> roster_in_table w \<and> table_wf w"
proof (induction rule: reachable.induct)
  case (initial gc url s)
  then show ?case by (simp add: init_invariants)
next
  case (transition w act)
  then show ?case
    using evolves_step[of w act] by (blast intro: evolves_roster_in_table evolves_table_wf)
qed

section \<open>Rosters and the global table under reconciliation\<close>

lemma table_wf_plain_id:
  "table_wf w \<Longrightarrow> uid \<notin> set prototype_members \<Longrightarrow> plain_id uid w"
  by (fastforce simp add: table_wf_def plain_id_def)

lemma table_wf_inherited:
  assumes "table_wf w" and "uid \<in> set prototype_members"
  shows "dict_get (ChatEngine_users w) uid = Some (Inherited uid)"
proof (cases "ChatEngine_users w uid")
  case None
  with assms(2) show ?thesis by (simp add: dict_get_inherited)
next
  case (Some v)
  with assms(1) have "case v of
             Identity a \<Rightarrow>
               a < next_user w \<and> uuid (user_heap w a) = uid \<and> uid \<notin> set prototype_members
           | Inherited k \<Rightarrow> k = uid \<and> uid \<in> set prototype_members"
    by (simp add: table_wf_def)
  with assms(2) have "v = Inherited uid"
    by (cases v) simp_all
  with Some show ?thesis by (simp add: dict_get_own)
qed

lemma roster_inherited:
  assumes "table_wf w" and "roster_in_table w" and "uid \<in> set prototype_members"
  shows "users (chat_heap w c) uid = None"
    and "dict_get (users (chat_heap w c)) uid = Some (Inherited uid)"
proof -
  show n: "users (chat_heap w c) uid = None"
  proof (cases "users (chat_heap w c) uid")
    case None
    then show ?thesis .
  next
    case (Some v)
    with assms(2) have "(\<exists>a. v = Identity a) \<and> ChatEngine_users w uid = Some v"
      by (simp add: roster_in_table_def)
    then have "dict_get (ChatEngine_users w) uid \<noteq> Some (Inherited uid)"
      by (auto simp add: dict_get_own)
    with table_wf_inherited[OF assms(1,3)] show ?thesis by simp
  qed
  show "dict_get (users (chat_heap w c)) uid = Some (Inherited uid)"
    using n assms(3) by (simp add: dict_get_inherited)
qed

lemma ensure_user_table_mono:
  "ChatEngine_users w u = Some x \<Longrightarrow> ChatEngine_users (ensure_user uid w) u = Some x"
  using evolves_ensure_user[of w uid] by (simp add: evolves_def extends_table_def)

lemma plain_id_ensure:
  assumes "plain_id uid w"
  shows "plain_id uid (ensure_user uid w)"
    and "identity_for uid (ensure_user uid w) = identity_for uid w"
    and "ensure_user uid (ensure_user uid w) = ensure_user uid w"
proof -
  have t: "ChatEngine_users (ensure_user uid w) uid = Some (Identity (identity_for uid w))"
    by (simp add: ensure_user_table[OF assms])
  show "plain_id uid (ensure_user uid w)"
    using assms t by (simp add: plain_id_def)
  show "identity_for uid (ensure_user uid w) = identity_for uid w"
    using t by (simp add: identity_for_def)
  show "ensure_user uid (ensure_user uid w) = ensure_user uid w"
    using t by (rule ensure_user_known)
qed

lemma createUser_returns:
  "plain_id uid w \<Longrightarrow>
     createUser c uid st force w = Returned (after (createUser c uid st force w))"
  by (simp add: createUser_plain after_simps)

lemma createUser_roster_entry:
  "plain_id uid w \<Longrightarrow>
     users (chat_heap (after (createUser c uid st force w)) c) uid
       = Some (Identity (identity_for uid w))"
  by (simp add: createUser_plain after_simps Let_def)


subsection \<open>\<open>userUpdate\<close>\<close>

lemma userUpdate_new:
  assumes "plain_id uid w" and "users (chat_heap (ensure_user uid w) c) uid = None"
  shows "userUpdate c uid st w =
     Returned
       (let w2 = after (createUser c uid st False (ensure_user uid w));
            a = identity_for uid w;
            w3 = assign a st c w2
        in trigger c ''$.state'' (Some [''user'' \<mapsto> UserRef a, ''state'' \<mapsto> Obj (User_state a c w3)]) w3)"
proof -
  let ?w1 = "ensure_user uid w"
  have p1: "plain_id uid ?w1" by (rule plain_id_ensure(1)[OF assms(1)])
  have n: "dict_get (users (chat_heap ?w1 c)) uid = None"
    using assms by (simp add: plain_id_def dict_get_plain)
  have r: "dict_get (users (chat_heap (after (createUser c uid st False ?w1)) c)) uid
             = Some (Identity (identity_for uid w))"
    using createUser_roster_entry[OF p1, of c st False]
    by (simp add: dict_get_own plain_id_ensure(2)[OF assms(1)])
  have "userUpdate c uid st w =
          and_then (createUser c uid st False ?w1)
            (\<lambda>w2. case dict_get (users (chat_heap w2 c)) uid of
                    Some (Identity b) \<Rightarrow>
                      (let w3 = assign b st c w2
                       in Returned
                            (trigger c ''$.state''
                               (Some [''user'' \<mapsto> UserRef b, ''state'' \<mapsto> Obj (User_state b c w3)]) w3))
                  | _ \<Rightarrow> Thrown TypeError w2)"
    using n by (simp add: userUpdate_def Let_def)
  also have "createUser c uid st False ?w1 = Returned (after (createUser c uid st False ?w1))"
    by (rule createUser_returns[OF p1])
  finally show ?thesis
    by (simp add: and_then_Returned r Let_def)
qed

lemma userUpdate_old:
  assumes "users (chat_heap (ensure_user uid w) c) uid = Some (Identity b)"
  shows "userUpdate c uid st w =
     Returned
       (let w2 = ensure_user uid w;
            w3 = assign b st c w2
        in trigger c ''$.state'' (Some [''user'' \<mapsto> UserRef b, ''state'' \<mapsto> Obj (User_state b c w3)]) w3)"
  using assms
  by (simp add: userUpdate_def Let_def dict_get_own and_then_Returned)

lemma userUpdate_throws:
  assumes "table_wf w" and "roster_in_table w" and "uid \<in> set prototype_members"
  shows "userUpdate c uid st w = Thrown TypeError (ensure_user uid w)"
proof -
  let ?w1 = "ensure_user uid w"
  have "table_wf ?w1" "roster_in_table ?w1"
    using assms evolves_ensure_user[of w uid]
    by (blast intro: evolves_table_wf evolves_roster_in_table)+
  then have "dict_get (users (chat_heap ?w1 c)) uid = Some (Inherited uid)"
    using assms(3) by (rule roster_inherited(2))
  then show ?thesis
    by (simp add: userUpdate_def Let_def and_then_Returned)
qed

text \<open>An entry of the roster, in a world whose rosters agree with the table.\<close>

lemma roster_entry_identity:
  assumes "roster_in_table w" and "users (chat_heap w c) uid = Some v"
  shows "v = Identity (identity_for uid w)" and "ChatEngine_users w uid = Some v"
proof -
  from assms have "(\<exists>a. v = Identity a) \<and> ChatEngine_users w uid = Some v"
    unfolding roster_in_table_def by blast
  then obtain a where "v = Identity a" and t: "ChatEngine_users w uid = Some v"
    by blast
  then show "v = Identity (identity_for uid w)" by (simp add: identity_for_def)
  show "ChatEngine_users w uid = Some v" by (rule t)
qed

lemma userUpdate_known:
  assumes "roster_in_table w" and "users (chat_heap w c) uid = Some v"
  shows "userUpdate c uid st w =
     Returned
       (let b = identity_for uid w;
            w3 = assign b st c w
        in trigger c ''$.state'' (Some [''user'' \<mapsto> UserRef b, ''state'' \<mapsto> Obj (User_state b c w3)]) w3)"
proof -
  note e = roster_entry_identity[OF assms]
  have eu: "ensure_user uid w = w" using e(2) by (rule ensure_user_known)
  have "users (chat_heap (ensure_user uid w) c) uid = Some (Identity (identity_for uid w))"
    using assms(2) e(1) by (simp add: eu)
  then show ?thesis
    by (simp add: userUpdate_old eu Let_def)
qed

lemma userUpdate_returns:
  assumes "plain_id uid w" and "roster_in_table w"
  shows "userUpdate c uid st w = Returned (after (userUpdate c uid st w))"
proof (cases "users (chat_heap w c) uid")
  case (Some v)
  show ?thesis
    by (simp add: userUpdate_known[OF assms(2) Some] after_simps)
next
  case None
  show ?thesis
  proof (cases "users (chat_heap (ensure_user uid w) c) uid")
    case None
    then show ?thesis by (simp add: userUpdate_new[OF assms(1)] after_simps)
  next
    case (Some v)
    then have "users (chat_heap w c) uid = Some v" by (rule ensure_user_rosters)
    with \<open>users (chat_heap w c) uid = None\<close> show ?thesis by simp
  qed
qed



subsection \<open>\<open>userUpdate\<close> on an existing room\<close>




lemma userUpdate_events:
  assumes "c < next_chat w" and "plain_id uid w" and "roster_in_table w"
  shows "local_events c (after (userUpdate c uid st w)) =
           local_events c w @
           (if users (chat_heap w c) uid = None then [''$.online.new'', ''$.state''] else [''$.state''])"
proof (cases "users (chat_heap w c) uid")
  case None
  then have n: "users (chat_heap (ensure_user uid w) c) uid = None"
    using assms by (simp add: ensure_user_chat_heap)
  have c1: "c < next_chat (ensure_user uid w)"
    using assms ensure_user_next(1)[of w uid] by simp
  obtain p where "log (after (createUser c uid st False (ensure_user uid w))) =
      log w @ [LocalEmit c ''$.online.new'' p]"
    using createUser_log[OF c1 plain_id_ensure(1)[OF assms(2)], of st False] n
    by (auto simp add: ensure_user_fields)
  then show ?thesis
    using None
    by (simp add: userUpdate_new[OF assms(2) n] after_simps Let_def trigger_fields assign_fields
        local_events_def local_events_in_append)
next
  case (Some v)
  show ?thesis
    using Some
    by (simp add: userUpdate_known[OF assms(3) Some] after_simps Let_def trigger_fields
        assign_fields local_events_def local_events_in_append)
qed

lemma userUpdate_chat:
  assumes "c < next_chat w" and "plain_id uid w" and "roster_in_table w"
  shows "chat_heap (after (userUpdate c uid st w)) c =
           (chat_heap w c)\<lparr>users := (users (chat_heap w c))(uid \<mapsto> Identity (identity_for uid w))\<rparr>"
proof (cases "users (chat_heap w c) uid")
  case None
  then have n: "users (chat_heap (ensure_user uid w) c) uid = None"
    using assms by (simp add: ensure_user_chat_heap)
  have c1: "c < next_chat (ensure_user uid w)"
    using assms ensure_user_next(1)[of w uid] by simp
  show ?thesis
    using assms(1)
    by (simp add: userUpdate_new[OF assms(2) n] after_simps Let_def trigger_fields assign_fields
        createUser_chat[OF c1 plain_id_ensure(1)[OF assms(2)]] plain_id_ensure(2)[OF assms(2)]
        ensure_user_chat_heap)
next
  case (Some v)
  have "(users (chat_heap w c))(uid \<mapsto> Identity (identity_for uid w)) = users (chat_heap w c)"
    using Some roster_entry_identity(1)[OF assms(3) Some] by (simp add: fun_upd_idem)
  then show ?thesis
    by (simp add: userUpdate_known[OF assms(3) Some] after_simps Let_def trigger_fields
        assign_fields)
qed






section \<open>Presence notifications\<close>




lemma onPresence_leave:
  assumes "channel (chat_heap w c) = pe_channel pe" and "pe_action pe = ''leave''"
  shows "onPresence c pe w = Returned (userLeave c (pe_uuid pe) w)"
  using assms by (simp add: onPresence_def and_then_def)

lemma onPresence_timeout:
  assumes "channel (chat_heap w c) = pe_channel pe" and "pe_action pe = ''timeout''"
  shows "onPresence c pe w = Returned (userDisconnect c (pe_uuid pe) w)"
  using assms by (simp add: onPresence_def and_then_def)

lemma onPresence_state_change:
  assumes "channel (chat_heap w c) = pe_channel pe" and "pe_action pe = ''state-change''"
  shows "onPresence c pe w = userUpdate c (pe_uuid pe) (pe_state pe) w"
  using assms by (simp add: onPresence_def and_then_def)

lemma onPresence_other_channel:
  "channel (chat_heap w c) \<noteq> pe_channel pe \<Longrightarrow> onPresence c pe w = Returned w"
  by (simp add: onPresence_def)





section \<open>The sample worlds, evaluated\<close>

lemma demo_init_fields:
  "globalChannel demo_init = ''chat-engine''"
  "next_chat demo_init = 0"
  "next_user demo_init = 0"
  "log demo_init = []"
  "ChatEngine_users demo_init = Map.empty"
  "ChatEngine_globalChat demo_init = None"
  by (simp_all add: demo_init_def init_def)

lemma demo_engine_fields:
  "globalChannel demo_engine = ''chat-engine''"
  "ChatEngine_globalChat demo_engine = Some 0"
  "ChatEngine_me demo_engine = Some 0"
  "ChatEngine_users demo_engine = [''u1'' \<mapsto> Identity 0]"
  "next_chat demo_engine = 3"
  "next_user demo_engine = 1"
  "pstate demo_engine = []"
  "channel (chat_heap demo_engine 0) = ''chat-engine''"
  "users (chat_heap demo_engine 0) = [''u1'' \<mapsto> Identity 0]"
  "plugins (chat_heap demo_engine 0) = []"
  "log demo_engine =
     [AddListener 0, Subscribe [''chat-engine''], HereNow 0 [''chat-engine''],
      AddListener 1, Subscribe [''chat-engine:user:u1:read.:feed''],
      HereNow 1 [''chat-engine:user:u1:read.:feed''],
      AddListener 2, Subscribe [''chat-engine:user:u1:write.:direct''],
      HereNow 2 [''chat-engine:user:u1:write.:direct''],
      LocalEmit 0 ''$.online.new'' (Some [''user'' \<mapsto> UserRef 0, ''chat'' \<mapsto> ChatRef 0]),
      SetState [''chat-engine''] (Some Map.empty),
      AddMessageListener 0 ''$.connected'']"
proof -
  define w1 :: "string list world" where "w1 = snd (new_Chat ''chat-engine'' True False demo_init)"
  define w2 where "w2 = w1\<lparr>ChatEngine_globalChat := Some 0\<rparr>"
  define w3 where "w3 = snd (new_Me ''u1'' Undefined w2)"
  define w4 where "w4 = w3\<lparr>ChatEngine_me := Some 0\<rparr>"
  define w5 where "w5 = after (createUser 0 ''u1'' (Some Map.empty) False w4)"
  define w6 where "w6 = Me_update 0 (Some Map.empty) 0 w5"
  have pl0: "plain_id ''u1'' w"
    if "ChatEngine_users w ''u1'' = None \<or> ChatEngine_users w ''u1'' = Some (Identity 0)"
    for w :: "string list world"
    using that by (auto simp add: plain_id_def prototype_members_def)
  have conn: "ChatEngine_connect ''u1'' (Some Map.empty) Undefined demo_init =
                and_then (createUser 0 ''u1'' (Some Map.empty) False w4)
                  (\<lambda>w5. Returned (snd (ensure_Event 0 ''$.connected''
                                    (Me_update 0 (Some Map.empty) 0 w5))))"
    unfolding w1_def w2_def w3_def w4_def
    by (simp add: ChatEngine_connect_def case_prod_beta Let_def
        new_Chat_fields new_Me_fields demo_init_fields)
  have w2f: "globalChannel w2 = ''chat-engine''" "ChatEngine_globalChat w2 = Some 0"
    "ChatEngine_me w2 = None" "ChatEngine_users w2 = Map.empty" "next_chat w2 = 1"
    "next_user w2 = 0" "pstate w2 = []"
    "chat_heap w2 0 = \<lparr>channel = ''chat-engine'', users = Map.empty, events = Map.empty,
        connected = False, autoConnect = True, plugins = [], children = []\<rparr>"
    "log w2 = [AddListener 0, Subscribe [''chat-engine''], HereNow 0 [''chat-engine'']]"
    by (simp_all add: w2_def w1_def new_Chat_fields new_Chat_log demo_init_fields
        chat_channel_self demo_init_def init_def)
  have cc: "chat_channel ''chat-engine'' (''chat-engine'' @ rest) False = ''chat-engine'' @ rest" for rest
    by (rule chat_channel_prefixed)
  have w4f: "globalChannel w4 = ''chat-engine''" "ChatEngine_globalChat w4 = Some 0"
    "ChatEngine_me w4 = Some 0" "ChatEngine_users w4 = [''u1'' \<mapsto> Identity 0]" "next_chat w4 = 3"
    "next_user w4 = 1" "pstate w4 = []"
    "chat_heap w4 0 = \<lparr>channel = ''chat-engine'', users = Map.empty, events = Map.empty,
        connected = False, autoConnect = True, plugins = [], children = []\<rparr>"
    "log w4 = [AddListener 0, Subscribe [''chat-engine''], HereNow 0 [''chat-engine''],
      AddListener 1, Subscribe [''chat-engine:user:u1:read.:feed''],
      HereNow 1 [''chat-engine:user:u1:read.:feed''],
      AddListener 2, Subscribe [''chat-engine:user:u1:write.:direct''],
      HereNow 2 [''chat-engine:user:u1:write.:direct'']]"
    using cc[of "'':user:u1:read.:feed''"] cc[of "'':user:u1:write.:direct''"]
    by (simp_all add: w4_def w3_def new_Me_fields new_User_fields new_User_log w2f
        dict_get_def dict_put_def prototype_members_def)
  have c0: "(0::nat) < next_chat w4" by (simp add: w4f)
  have nh: "no_handler 0 ''on'' ''$.online.new'' w4"
    by (simp add: no_handler_def w4f List.map_filter_def)
  have p4: "plain_id ''u1'' w4"
    by (rule pl0) (simp add: w4f)
  have id4: "identity_for ''u1'' w4 = 0"
    by (simp add: identity_for_def w4f)
  have eng: "demo_engine = snd (ensure_Event 0 ''$.connected'' w6)"
    unfolding demo_engine_def conn w6_def w5_def
    by (subst createUser_returns[OF p4]) (simp add: and_then_Returned after_simps)
  have w5f: "globalChannel w5 = ''chat-engine''" "ChatEngine_globalChat w5 = Some 0"
    "ChatEngine_me w5 = Some 0" "ChatEngine_users w5 = [''u1'' \<mapsto> Identity 0]" "next_chat w5 = 3"
    "next_user w5 = 1" "pstate w5 = []"
    "chat_heap w5 0 = \<lparr>channel = ''chat-engine'', users = [''u1'' \<mapsto> Identity 0], events = Map.empty,
        connected = False, autoConnect = True, plugins = [], children = []\<rparr>"
    "log w5 = log w4 @ [LocalEmit 0 ''$.online.new'' (Some [''user'' \<mapsto> UserRef 0, ''chat'' \<mapsto> ChatRef 0])]"
    using createUser_chat[OF c0 p4, of "Some Map.empty" False]
      createUser_log_no_handler[OF c0 nh p4, of "Some Map.empty" False]
      createUser_pstate_no_handler[OF c0 nh, of "''u1''" "Some Map.empty" False]
    by (simp_all add: w5_def createUser_table[OF p4] createUser_misc createUser_alloc id4 w4f
        dict_get_def)
  show "globalChannel demo_engine = ''chat-engine''"
    "ChatEngine_globalChat demo_engine = Some 0"
    "ChatEngine_me demo_engine = Some 0"
    "ChatEngine_users demo_engine = [''u1'' \<mapsto> Identity 0]"
    "next_chat demo_engine = 3"
    "next_user demo_engine = 1"
    "pstate demo_engine = []"
    "channel (chat_heap demo_engine 0) = ''chat-engine''"
    "users (chat_heap demo_engine 0) = [''u1'' \<mapsto> Identity 0]"
    "plugins (chat_heap demo_engine 0) = []"
    by (simp_all add: eng ensure_Event_fields w6_def Me_update_fields w5f)
  show "log demo_engine =
     [AddListener 0, Subscribe [''chat-engine''], HereNow 0 [''chat-engine''],
      AddListener 1, Subscribe [''chat-engine:user:u1:read.:feed''],
      HereNow 1 [''chat-engine:user:u1:read.:feed''],
      AddListener 2, Subscribe [''chat-engine:user:u1:write.:direct''],
      HereNow 2 [''chat-engine:user:u1:write.:direct''],
      LocalEmit 0 ''$.online.new'' (Some [''user'' \<mapsto> UserRef 0, ''chat'' \<mapsto> ChatRef 0]),
      SetState [''chat-engine''] (Some Map.empty),
      AddMessageListener 0 ''$.connected'']"
    by (simp add: eng ensure_Event_fields w6_def Me_update_fields w5f w4f)
qed

lemma demo_lobby_fields:
  "channel (chat_heap demo_lobby 3) = ''chat-engine:chat:public.:lobby''"
  "connected (chat_heap demo_lobby 3) = False"
  "users (chat_heap demo_lobby 3) = Map.empty"
  "plugins (chat_heap demo_lobby 3) = []"
  "next_chat demo_lobby = 4"
  "next_user demo_lobby = 1"
  "globalChannel demo_lobby = ''chat-engine''"
  "ChatEngine_globalChat demo_lobby = Some 0"
  "ChatEngine_users demo_lobby = [''u1'' \<mapsto> Identity 0]"
  "channel (chat_heap demo_lobby 0) = ''chat-engine''"
  "users (chat_heap demo_lobby 0) = [''u1'' \<mapsto> Identity 0]"
  "pstate demo_lobby = []"
  "log demo_lobby =
     log demo_engine @
     [AddListener 3, Subscribe [''chat-engine:chat:public.:lobby''],
      HereNow 3 [''chat-engine:chat:public.:lobby'']]"
  by (simp_all add: demo_lobby_def new_Chat_fields new_Chat_log demo_engine_fields
      chat_channel_def indexOf_def)

lemma demo_lobby_quiet:
  "local_events 3 demo_lobby = []"
  "emitted 3 ev demo_lobby = []"
  "published demo_lobby = []"
  by (simp_all add: local_events_def emitted_def published_def demo_lobby_fields
      demo_engine_fields)

lemma lobby_connected_fields:
  "category lobby_connected = ''PNConnectedCategory''"
  "affectedChannels lobby_connected = [''chat-engine:chat:public.:lobby'']"
  "se_error lobby_connected = False"
  by (simp_all add: lobby_connected_def)

lemma sample_plugin_handler:
  "plugin_handler (sample_plugin name ev h) ''emit'' ev = Some h"
  "plugin_handler (sample_plugin name ev h) ''on'' ev = Some h"
  by (simp_all add: plugin_handler_def sample_plugin_def)

lemma demo_guarded_fields:
  "plugins (chat_heap demo_guarded 3) =
     [sample_plugin ''guard'' ''message'' rejecting_handler]
     @ [sample_plugin ''late'' ''message'' (marker_handler ''late'')]"
  "pstate demo_guarded = []"
  "log demo_guarded = log demo_lobby"
  "channel (chat_heap demo_guarded 3) = ''chat-engine:chat:public.:lobby''"
  by (simp_all add: demo_guarded_def plugin_fields demo_lobby_fields)

lemma demo_guarded_rejects:
  "queue_result [sample_plugin ''guard'' ''message'' rejecting_handler] loc ''message'' seed []
   = (if loc = ''emit'' \<or> loc = ''on'' then ((Some (Str ''rejected''), None), [''rejected''])
      else ((None, seed), []))"
  by (simp add: queue_result_def plugin_queue_def List.map_filter_def plugin_handler_def
      sample_plugin_def first_task_def rejecting_handler_def)

lemma demo_refusing_fields:
  "plugins (chat_heap demo_refusing 3) =
     [sample_plugin ''guard'' ''message'' refusing_handler]
     @ [sample_plugin ''late'' ''message'' (marker_handler ''late'')]"
  "pstate demo_refusing = []"
  "log demo_refusing = log demo_lobby"
  "channel (chat_heap demo_refusing 3) = ''chat-engine:chat:public.:lobby''"
  "events (chat_heap demo_refusing 3) = events (chat_heap demo_lobby 3)"
  "ChatEngine_me demo_refusing = ChatEngine_me demo_lobby"
  "user_heap demo_refusing = user_heap demo_lobby"
  by (simp_all add: demo_refusing_def plugin_fields demo_lobby_fields)

lemma demo_refusing_refuses:
  "queue_result [sample_plugin ''guard'' ''message'' refusing_handler] loc ''message'' seed []
   = (if loc = ''emit'' \<or> loc = ''on'' then ((Some (Str ''refused''), seed), [''refused''])
      else ((None, seed), []))"
  by (simp add: queue_result_def plugin_queue_def List.map_filter_def plugin_handler_def
      sample_plugin_def first_task_def refusing_handler_def)

subsection \<open>The sample worlds are reachable\<close>

lemma demo_reachable:
  "reachable demo_init" "reachable demo_engine" "reachable demo_lobby" "reachable demo_joined"
proof -
  show i: "reachable demo_init"
    unfolding demo_init_def by (rule reachable.initial)
  show e: "reachable demo_engine"
    using reachable.transition[OF i, of "ConnectEngine ''u1'' (Some Map.empty) Undefined"]
    by (simp add: demo_engine_def)
  show l: "reachable demo_lobby"
    using reachable.transition[OF e, of "NewChat ''lobby'' True False"]
    by (simp add: demo_lobby_def)
  show "reachable demo_joined"
    using reachable.transition[OF l,
      of "OnPresence 3 (lobby_presence ''join'' ''u2'' (Some [''name'' \<mapsto> Str ''Bob'']))"]
    by (simp add: demo_joined_def)
qed

lemma lobby_presence_fields:
  "pe_channel (lobby_presence action uid st) = ''chat-engine:chat:public.:lobby''"
  "pe_action (lobby_presence action uid st) = action"
  "pe_uuid (lobby_presence action uid st) = uid"
  "pe_state (lobby_presence action uid st) = st"
  by (simp_all add: lobby_presence_def)

lemma no_handler_no_plugins: "plugins (chat_heap w c) = [] \<Longrightarrow> no_handler c loc ev w"
  by (simp add: no_handler_def List.map_filter_def)

lemma known_state_unknown: "ChatEngine_users w uid = None \<Longrightarrow> known_state c uid w = Map.empty"
  by (simp add: known_state_def)

lemma sample_ids:
  "''u1'' \<notin> set prototype_members" "''u2'' \<notin> set prototype_members"
  "''u3'' \<notin> set prototype_members" "''u9'' \<notin> set prototype_members"
  "''constructor'' \<in> set prototype_members"
  by (simp_all add: prototype_members_def)

lemma demo_lobby_u2:
  "plain_id ''u2'' demo_lobby"
  "known_state 3 ''u2'' demo_lobby = Map.empty"
  "no_handler 3 loc ev demo_lobby"
  "identity_for ''u2'' demo_lobby = 1"
  by (simp_all add: plain_id_def identity_for_def sample_ids known_state_unknown
      no_handler_no_plugins demo_lobby_fields)


lemma demo_lobby_me:
  "ChatEngine_me demo_lobby = Some 0"
  "uuid (user_heap demo_lobby 0) = ''u1''"
  "events (chat_heap demo_lobby 3) = Map.empty"
proof -
  show "ChatEngine_me demo_lobby = Some 0"
    by (simp add: demo_lobby_def new_Chat_fields demo_engine_fields)
  have "table_wf demo_lobby"
    using reachable_invariants[OF demo_reachable(3)] by simp
  moreover have "ChatEngine_users demo_lobby ''u1'' = Some (Identity 0)"
    by (simp add: demo_lobby_fields)
  ultimately show "uuid (user_heap demo_lobby 0) = ''u1''"
    unfolding table_wf_def by fastforce
  show "events (chat_heap demo_lobby 3) = Map.empty"
    by (simp add: demo_lobby_def new_Chat_fields demo_engine_fields)
qed

section \<open>Connected status notifications\<close>

lemma onStatus_match_fields:
  assumes "category se = ''PNConnectedCategory''"
    and "channel (chat_heap w c) \<in> set (affectedChannels se)"
  shows "chat_heap (onStatus c se w) = (chat_heap w)(c := (chat_heap w c)\<lparr>connected := True\<rparr>)"
    and "\<exists>p. emitted c ''$.connected'' (onStatus c se w) = emitted c ''$.connected'' w @ [p]"
    and "local_events c (onStatus c se w) = local_events c w @ [''$.connected'']"
  using assms
  by (simp_all add: onStatus_def trigger_fields emitted_def local_events_def
      emitted_in_append local_events_in_append)

lemma onStatus_twice:
  assumes "category se = ''PNConnectedCategory''"
    and "channel (chat_heap w c) \<in> set (affectedChannels se)"
  shows "chat_heap (onStatus c se (onStatus c se w)) = chat_heap (onStatus c se w)"
    and "length (emitted c ''$.connected'' (onStatus c se (onStatus c se w))) =
         length (emitted c ''$.connected'' w) + 2"
    and "local_events c (onStatus c se (onStatus c se w)) =
         local_events c w @ [''$.connected'', ''$.connected'']"
proof -
  let ?w1 = "onStatus c se w"
  have ch1: "channel (chat_heap ?w1 c) \<in> set (affectedChannels se)"
    using assms by (simp add: onStatus_match_fields(1))
  have h1: "chat_heap ?w1 = (chat_heap w)(c := (chat_heap w c)\<lparr>connected := True\<rparr>)"
    using assms by (rule onStatus_match_fields(1))
  have "chat_heap (onStatus c se ?w1) = (chat_heap ?w1)(c := (chat_heap ?w1 c)\<lparr>connected := True\<rparr>)"
    using assms(1) ch1 by (rule onStatus_match_fields(1))
  then show "chat_heap (onStatus c se ?w1) = chat_heap ?w1"
    by (simp add: h1)
  obtain p where p: "emitted c ''$.connected'' ?w1 = emitted c ''$.connected'' w @ [p]"
    using onStatus_match_fields(2)[OF assms] by blast
  obtain q where q: "emitted c ''$.connected'' (onStatus c se ?w1) = emitted c ''$.connected'' ?w1 @ [q]"
    using onStatus_match_fields(2)[OF assms(1) ch1] by blast
  show "length (emitted c ''$.connected'' (onStatus c se ?w1)) =
         length (emitted c ''$.connected'' w) + 2"
    by (simp add: p q)
  show "local_events c (onStatus c se ?w1) = local_events c w @ [''$.connected'', ''$.connected'']"
    by (simp add: onStatus_match_fields(3)[OF assms(1) ch1] onStatus_match_fields(3)[OF assms])
qed

text \<open>
  Claim C1, as the code has it. \<open>onStatus\<close> does not read the \<open>connected\<close> flag: every
  connected status notification (category \<open>PNConnectedCategory\<close>, the chat's channel among
  the affected channels) sets the flag and triggers \<open>$.connected\<close>. Delivered twice, the
  notification leaves the chat objects as the first delivery left them, and the chat has
  delivered \<open>$.connected\<close> twice.
\<close>

theorem connected_status_every_time:
  assumes "category se = ''PNConnectedCategory''"
    and "channel (chat_heap w c) \<in> set (affectedChannels se)"
  shows "connected (chat_heap (onStatus c se w) c)
       \<and> local_events c (onStatus c se w) = local_events c w @ [''$.connected'']
       \<and> chat_heap (onStatus c se (onStatus c se w)) = chat_heap (onStatus c se w)
       \<and> local_events c (onStatus c se (onStatus c se w)) =
           local_events c w @ [''$.connected'', ''$.connected'']
       \<and> length (emitted c ''$.connected'' (onStatus c se (onStatus c se w))) =
           length (emitted c ''$.connected'' w) + 2"
  using onStatus_twice[OF assms] onStatus_match_fields[OF assms] by simp

theorem connected_status_every_time_witness:
  "category lobby_connected = ''PNConnectedCategory''
   \<and> channel (chat_heap demo_lobby 3) \<in> set (affectedChannels lobby_connected)
   \<and> connected (chat_heap (onStatus 3 lobby_connected demo_lobby) 3)
   \<and> local_events 3 (onStatus 3 lobby_connected (onStatus 3 lobby_connected demo_lobby))
       = [''$.connected'', ''$.connected'']"
  using connected_status_every_time [of lobby_connected demo_lobby 3]
  by (simp add: lobby_connected_fields demo_lobby_fields demo_lobby_quiet)

text \<open>
  The claim as the specification words it (two deliveries, exactly one \<open>$.connected\<close>)
  fails on the room \<open>lobby\<close>: two deliveries, two notifications.
\<close>

theorem connected_twice_counterexample:
  "length (emitted 3 ''$.connected''
     (onStatus 3 lobby_connected (onStatus 3 lobby_connected demo_lobby))) = 2"
  using onStatus_twice(2) [of lobby_connected demo_lobby 3]
  by (simp add: lobby_connected_fields demo_lobby_fields demo_lobby_quiet)

section \<open>Channel names\<close>

text \<open>
  Claim C4, as the code has it. The parts of a channel name are joined with a colon, and
  the visibility part ends in a dot of its own: a room built from an identifier that does
  not contain the global channel gets \<open>global:chat:private.:identifier\<close> (or
  \<open>public.\<close>), with a colon after the dot. In an engine whose global chat carries the
  global channel, the two chats of an identity get \<open>global:user:id:read.:feed\<close> and
  \<open>global:user:id:write.:direct\<close>.
\<close>

theorem channel_names:
  "(\<not> sublist (globalChannel w) ident \<longrightarrow>
      channel (chat_heap (snd (new_Chat ident ac needGrant w)) (fst (new_Chat ident ac needGrant w)))
      = globalChannel w @ '':chat:'' @ (if needGrant then ''private'' else ''public'') @ ''.:'' @ ident)
   \<and> (ChatEngine_globalChat w = Some g \<and> channel (chat_heap w g) = globalChannel w \<longrightarrow>
      channel (chat_heap (snd (new_User me uid w))
                 (feed (user_heap (snd (new_User me uid w)) (fst (new_User me uid w)))))
      = globalChannel w @ '':user:'' @ uid @ '':read.:feed''
      \<and> channel (chat_heap (snd (new_User me uid w))
                 (direct (user_heap (snd (new_User me uid w)) (fst (new_User me uid w)))))
      = globalChannel w @ '':user:'' @ uid @ '':write.:direct'')"
  using identity_channels[of w g me uid]
  by (simp add: new_Chat_fields chat_channel_fresh)

theorem channel_names_witness:
  "\<not> sublist (globalChannel demo_engine) ''lobby''
   \<and> channel (chat_heap (snd (new_Chat ''lobby'' True True demo_engine))
                (fst (new_Chat ''lobby'' True True demo_engine)))
     = ''chat-engine:chat:private.:lobby''
   \<and> ChatEngine_globalChat demo_engine = Some 0
   \<and> channel (chat_heap demo_engine 0) = globalChannel demo_engine
   \<and> channel (chat_heap (snd (new_User False ''u2'' demo_engine))
        (feed (user_heap (snd (new_User False ''u2'' demo_engine)) (fst (new_User False ''u2'' demo_engine)))))
     = ''chat-engine:user:u2:read.:feed''
   \<and> channel (chat_heap (snd (new_User False ''u2'' demo_engine))
        (direct (user_heap (snd (new_User False ''u2'' demo_engine)) (fst (new_User False ''u2'' demo_engine)))))
     = ''chat-engine:user:u2:write.:direct''"
proof -
  have ns: "\<not> sublist (globalChannel demo_engine) ''lobby''"
    by (simp add: demo_engine_fields indexOf_minus1_iff[symmetric] indexOf_def)
  show ?thesis
    using ns channel_names[of demo_engine "''lobby''" True True 0 False "''u2''"]
    by (simp add: demo_engine_fields)
qed

text \<open>
  The names of the specification, with no colon after the dot, are not the names the
  constructors build.
\<close>

theorem channel_name_counterexample:
  "\<not> sublist (globalChannel demo_engine) ''lobby''
   \<and> channel (chat_heap (snd (new_Chat ''lobby'' True True demo_engine))
                (fst (new_Chat ''lobby'' True True demo_engine)))
     \<noteq> globalChannel demo_engine @ '':chat:'' @ ''private'' @ ''.'' @ ''lobby''
   \<and> channel (chat_heap (snd (new_User False ''u2'' demo_engine))
        (feed (user_heap (snd (new_User False ''u2'' demo_engine)) (fst (new_User False ''u2'' demo_engine)))))
     \<noteq> globalChannel demo_engine @ '':user:'' @ ''u2'' @ '':read.feed''"
proof -
  have ns: "\<not> sublist (globalChannel demo_engine) ''lobby''"
    by (simp add: demo_engine_fields indexOf_minus1_iff[symmetric] indexOf_def)
  have f: "channel (chat_heap (snd (new_User False ''u2'' demo_engine))
        (feed (user_heap (snd (new_User False ''u2'' demo_engine)) (fst (new_User False ''u2'' demo_engine)))))
     = ''chat-engine:user:u2:read.:feed''"
    using identity_channels(1)[of demo_engine 0 False "''u2''"] by (simp add: demo_engine_fields)
  show ?thesis
    using ns chat_channel_fresh[OF ns, of True]
    by (simp add: f new_Chat_fields demo_engine_fields)
qed

section \<open>Leaving a room\<close>

text \<open>
  Claim C5, as the code has it. \<open>leave\<close> asks the transport to unsubscribe from the
  channel and does nothing else: on a connected room the \<open>connected\<close> flag stays set
  (no statement of the program ever clears it), every roster and the global table are
  unchanged, and the only transport call is the \<open>unsubscribe\<close>, so nothing reconnects.
\<close>

theorem leave_keeps_flag_and_roster:
  assumes "connected (chat_heap w c)"
  shows "connected (chat_heap (leave c w) c)
       \<and> users (chat_heap (leave c w) c) = users (chat_heap w c)
       \<and> chat_heap (leave c w) = chat_heap w
       \<and> ChatEngine_users (leave c w) = ChatEngine_users w
       \<and> log (leave c w) = log w @ [Unsubscribe [channel (chat_heap w c)]]"
  using assms by (simp add: leave_fields)

lemma demo_lobby_connected:
  "chat_heap (onStatus 3 lobby_connected demo_lobby) =
     (chat_heap demo_lobby)(3 := (chat_heap demo_lobby 3)\<lparr>connected := True\<rparr>)"
  by (rule onStatus_match_fields(1)) (simp_all add: lobby_connected_fields demo_lobby_fields)

theorem leave_keeps_flag_and_roster_witness:
  "connected (chat_heap (onStatus 3 lobby_connected demo_lobby) 3)
   \<and> connected (chat_heap (leave 3 (onStatus 3 lobby_connected demo_lobby)) 3)
   \<and> users (chat_heap (leave 3 (onStatus 3 lobby_connected demo_lobby)) 3) = Map.empty"
  using leave_keeps_flag_and_roster [of "onStatus 3 lobby_connected demo_lobby" 3]
  by (simp add: demo_lobby_connected demo_lobby_fields)

text \<open>
  The claim as the specification words it (after \<open>leave\<close> the flag is no longer set)
  fails on the connected room \<open>lobby\<close>.
\<close>

theorem leave_disconnects_counterexample:
  "connected (chat_heap (onStatus 3 lobby_connected demo_lobby) 3)
   \<and> connected (chat_heap (leave 3 (onStatus 3 lobby_connected demo_lobby)) 3)"
  by (simp add: leave_fields demo_lobby_connected)

section \<open>The order of the middleware\<close>

lemma waterfall_append:
  "waterfall (hs1 @ hs2) p s =
     (case waterfall hs1 p s of
        ((None, p'), s') \<Rightarrow> waterfall hs2 p' s'
      | ((Some e, p'), s') \<Rightarrow> ((Some e, p'), s'))"
  by (induction hs1 arbitrary: p s) (auto split: prod.splits step_result.splits)

lemma waterfall_failed_prefix:
  "waterfall hs1 p s = ((Some e, p'), s') \<Longrightarrow> waterfall (hs1 @ hs2) p s = ((Some e, p'), s')"
  by (simp add: waterfall_append)

lemma plugin_queue_append:
  "plugin_queue f (ps1 @ ps2) loc ev =
     plugin_queue f ps1 loc ev @ List.map_filter (\<lambda>p. plugin_handler p loc ev) ps2"
  by (simp add: plugin_queue_def List.map_filter_def)

lemma pipeline_result_eq:
  "pipeline_result c loc ev seed w =
     (case waterfall (plugin_queue (first_task seed) (plugins (chat_heap w c)) loc ev) None (pstate w) of
        ((err, p), s) \<Rightarrow> (err, p, s))"
  by (simp add: pipeline_result_def runPluginQueue_def split: prod.splits)

lemma pipeline_result_no_plugins:
  "plugins (chat_heap w c) = [] \<Longrightarrow> pipeline_result c loc ev seed w = (None, seed, pstate w)"
  by (simp add: pipeline_result_eq plugin_queue_def List.map_filter_def first_task_def)

lemma pipeline_result_plugin:
  "pipeline_result c loc ev seed (plugin c m w) =
     (case pipeline_result c loc ev seed w of
        (None, p, s) \<Rightarrow>
          (case plugin_handler m loc ev of
             None \<Rightarrow> (None, p, s)
           | Some h \<Rightarrow>
               (case h p s of
                  (Next p', s') \<Rightarrow> (None, p', s')
                | (Fail e p', s') \<Rightarrow> (Some e, p', s')))
      | (Some e, p, s) \<Rightarrow> (Some e, p, s))"
  by (simp add: pipeline_result_eq plugin_fields plugin_queue_append waterfall_append
      List.map_filter_def split: prod.splits option.splits step_result.splits)

text \<open>
  Claim C8. For either location (\<open>emit\<close>, or \<open>on\<close> for the trigger stage), any event and
  any seed payload: with no plugin the final callback receives the seed; registering a
  plugin appends it to the chat's list, and the queue of the longer list is the queue of
  the shorter one followed by the new plugin's handler for that location and event, which
  runs on the payload and plugin state the earlier steps produced. So the handlers run
  after the seed step, in registration order, each on its predecessor's output; for \<open>P1\<close>
  then \<open>P2\<close>, the handler of \<open>P2\<close> runs on what the handler of \<open>P1\<close> returned.
\<close>

theorem middleware_in_registration_order:
  "(plugins (chat_heap w c) = [] \<longrightarrow> pipeline_result c loc ev seed w = (None, seed, pstate w))
   \<and> plugins (chat_heap (plugin c m w) c) = plugins (chat_heap w c) @ [m]
   \<and> pipeline_result c loc ev seed (plugin c m w) =
       (case pipeline_result c loc ev seed w of
          (None, p, s) \<Rightarrow>
            (case plugin_handler m loc ev of
               None \<Rightarrow> (None, p, s)
             | Some h \<Rightarrow>
                 (case h p s of
                    (Next p', s') \<Rightarrow> (None, p', s')
                  | (Fail e p', s') \<Rightarrow> (Some e, p', s')))
        | (Some e, p, s) \<Rightarrow> (Some e, p, s))
   \<and> (plugins (chat_heap w c) = [] \<and> plugin_handler P1 loc ev = Some h1
        \<and> plugin_handler P2 loc ev = Some h2 \<and> h1 seed (pstate w) = (Next p1, s1)
        \<and> h2 p1 s1 = (Next p2, s2) \<longrightarrow>
        pipeline_result c loc ev seed (plugin c P2 (plugin c P1 w)) = (None, p2, s2))"
  by (simp add: pipeline_result_plugin pipeline_result_no_plugins plugin_fields)

theorem middleware_in_registration_order_witness:
  "pipeline_result 3 ''emit'' ''message'' (Some Map.empty)
     (plugin 3 (sample_plugin ''P2'' ''message'' (marker_handler ''P2''))
        (plugin 3 (sample_plugin ''P1'' ''message'' (marker_handler ''P1'')) demo_lobby))
   = (None, Some [''trace'' \<mapsto> Str ''P1P2''], [''P1'', ''P2''])"
proof -
  have h1: "marker_handler ''P1'' (Some Map.empty) (pstate demo_lobby)
            = (Next (Some [''trace'' \<mapsto> Str ''P1'']), [''P1''])"
    by (simp add: marker_handler_def get_prop_def demo_lobby_fields)
  have h2: "marker_handler ''P2'' (Some [''trace'' \<mapsto> Str ''P1'']) [''P1'']
            = (Next (Some [''trace'' \<mapsto> Str ''P1P2'']), [''P1'', ''P2''])"
    by (simp add: marker_handler_def get_prop_def)
  show ?thesis
    using middleware_in_registration_order
      [of demo_lobby 3 "''emit''" "''message''" "Some Map.empty" "sample_plugin ''P0'' ''other'' rejecting_handler"
          "sample_plugin ''P1'' ''message'' (marker_handler ''P1'')" "marker_handler ''P1''"
          "sample_plugin ''P2'' ''message'' (marker_handler ''P2'')" "marker_handler ''P2''"
          "Some [''trace'' \<mapsto> Str ''P1'']" "[''P1'']"
          "Some [''trace'' \<mapsto> Str ''P1P2'']" "[''P1'', ''P2'']"]
      h1 h2
    by (simp add: sample_plugin_handler demo_lobby_fields)
qed

section \<open>A failing middleware step\<close>

lemma on_result_failed_prefix:
  assumes "plugins (chat_heap w c) = ps1 @ ps2"
    and "queue_result ps1 ''on'' ev (restore c w payload) (pstate w) = ((Some e, p), s)"
  shows "on_result c ev payload w = ((Some e, p), s)"
  using assms
  by (simp add: on_result_def queue_result_def plugin_queue_append waterfall_failed_prefix)

lemma trigger_failed_prefix:
  assumes "plugins (chat_heap w c) = ps1 @ ps2"
    and "queue_result ps1 ''on'' ev (restore c w payload) (pstate w) = ((Some e, p), s)"
  shows "trigger c ev payload w = w\<lparr>pstate := s, log := log w @ [LocalEmit c ev p]\<rparr>"
  by (simp add: trigger_eq delivered_def on_result_failed_prefix[OF assms])

lemma emit_failed_prefix:
  assumes "plugins (chat_heap w c) = ps1 @ ps2"
    and "queue_result ps1 ''emit'' ev (Some (emit_payload c data w)) (pstate w) = ((Some e, p), s)"
  shows "emit c ev data w = emit_last c ev (Some e) p (w\<lparr>pstate := s\<rparr>)"
    and "pipeline_result c ''emit'' ev (Some (emit_payload c data w)) w = (Some e, p, s)"
  using assms
  by (simp_all add: emit_def pipeline_result_def runPluginQueue_def queue_result_def
      plugin_queue_append waterfall_failed_prefix)

lemma emit_last_published:
  "published (after (emit_last c ev err p w)) =
     published w @
     (case p of
        None \<Rightarrow> []
      | Some obj \<Rightarrow> [(fst (ensure_Event c ev w), obj(''chat'' := None, ''event'' \<mapsto> Str ev))])"
  by (simp add: emit_last_def after_simps case_prod_beta publish_def published_def
      published_in_append ensure_Event_fields split: option.splits)

lemma ensure_Event_pstate:
  "fst (ensure_Event c ev (w\<lparr>pstate := s\<rparr>)) = fst (ensure_Event c ev w)"
  by (simp add: ensure_Event_def Let_def split: option.splits)

text \<open>
  Claim C3, as the code has it. When a step among the first plugins \<open>ps1\<close> signals failure,
  no handler of the later plugins \<open>ps2\<close> runs: the final callback receives that error with
  the payload that came with it, and the plugin state is the one the failing step left.
  The final callbacks do not look at the error. In the trigger stage the event is still
  delivered to the local listeners, with that payload (\<open>undefined\<close> when the step passed
  none). In the emit stage the final callback runs as after a successful chain: when the
  failing step passed a payload, that payload, without \<open>chat\<close> and with \<open>event\<close>, is
  published on the channel of the event; when it passed none, \<^verbatim>\<open>delete payload.chat\<close>
  raises a \<open>TypeError\<close> and nothing is published.
\<close>

theorem failed_step_ends_chain:
  assumes "plugins (chat_heap w c) = ps1 @ ps2"
  shows "(queue_result ps1 ''on'' ev (restore c w payload) (pstate w) = ((Some e, p), s) \<longrightarrow>
            on_result c ev payload w = ((Some e, p), s)
          \<and> trigger c ev payload w = w\<lparr>pstate := s, log := log w @ [LocalEmit c ev p]\<rparr>)
       \<and> (queue_result ps1 ''emit'' ev (Some (emit_payload c data w)) (pstate w) = ((Some e', p'), s') \<longrightarrow>
            pipeline_result c ''emit'' ev (Some (emit_payload c data w)) w = (Some e', p', s')
          \<and> emit c ev data w = emit_last c ev (Some e') p' (w\<lparr>pstate := s'\<rparr>)
          \<and> (p' = None \<longrightarrow> emit c ev data w = Thrown TypeError (w\<lparr>pstate := s'\<rparr>))
          \<and> (p' \<noteq> None \<longrightarrow> (\<exists>w'. emit c ev data w = Returned w'))
          \<and> published (after (emit c ev data w)) =
              published w @
              (case p' of
                 None \<Rightarrow> []
               | Some obj \<Rightarrow>
                   [(fst (ensure_Event c ev w), obj(''chat'' := None, ''event'' \<mapsto> Str ev))]))"
proof -
  have "emit c ev data w = emit_last c ev (Some e') p' (w\<lparr>pstate := s'\<rparr>)
        \<and> pipeline_result c ''emit'' ev (Some (emit_payload c data w)) w = (Some e', p', s')
        \<and> (p' = None \<longrightarrow> emit c ev data w = Thrown TypeError (w\<lparr>pstate := s'\<rparr>))
        \<and> (p' \<noteq> None \<longrightarrow> (\<exists>w'. emit c ev data w = Returned w'))
        \<and> published (after (emit c ev data w)) =
              published w @
              (case p' of
                 None \<Rightarrow> []
               | Some obj \<Rightarrow>
                   [(fst (ensure_Event c ev w), obj(''chat'' := None, ''event'' \<mapsto> Str ev))])"
    if q: "queue_result ps1 ''emit'' ev (Some (emit_payload c data w)) (pstate w) = ((Some e', p'), s')"
  proof -
    note e = emit_failed_prefix[OF assms q]
    have "published (after (emit c ev data w)) =
            published (w\<lparr>pstate := s'\<rparr>) @
              (case p' of
                 None \<Rightarrow> []
               | Some obj \<Rightarrow>
                   [(fst (ensure_Event c ev w), obj(''chat'' := None, ''event'' \<mapsto> Str ev))])"
      by (simp add: e(1) emit_last_published ensure_Event_pstate split: option.splits)
    then show ?thesis
      using e by (auto simp add: published_def emit_last_def case_prod_beta)
  qed
  then show ?thesis
    using on_result_failed_prefix[OF assms] trigger_failed_prefix[OF assms] by blast
qed

theorem failed_step_ends_chain_witness:
  "trigger 3 ''message'' (Some [''text'' \<mapsto> Str ''hi'']) demo_guarded
     = demo_guarded\<lparr>pstate := [''rejected''],
                    log := log demo_guarded @ [LocalEmit 3 ''message'' None]\<rparr>
   \<and> emit 3 ''message'' (Str ''hi'') demo_guarded
     = Thrown TypeError (demo_guarded\<lparr>pstate := [''rejected'']\<rparr>)
   \<and> published (after (emit 3 ''message'' (Str ''hi'') demo_guarded)) = []"
  using failed_step_ends_chain
    [OF demo_guarded_fields(1), of "''message''" "Some [''text'' \<mapsto> Str ''hi'']"
       "Str ''rejected''" None "[''rejected'']" "Str ''hi''" "Str ''rejected''" None "[''rejected'']"]
  by (simp add: demo_guarded_rejects demo_guarded_fields demo_lobby_quiet[unfolded published_def]
      published_def emit_last_def after_simps)

text \<open>
  The claim as the specification words it (after a failed step the event is neither
  delivered to local listeners nor published) fails in both stages. On the room with the
  rejecting plugin the step of \<open>trigger\<close> fails and the event is delivered, with an
  \<open>undefined\<close> payload. On the room with the refusing plugin the step of \<open>emit\<close> fails and
  the event is published on the channel of the room, with the payload the step passed.
\<close>

theorem failed_step_still_delivers_and_publishes_counterexample:
  "fst (on_result 3 ''message'' (Some [''text'' \<mapsto> Str ''hi'']) demo_guarded)
     = (Some (Str ''rejected''), None)
   \<and> emitted 3 ''message'' (trigger 3 ''message'' (Some [''text'' \<mapsto> Str ''hi'']) demo_guarded)
     = [None]
   \<and> fst (pipeline_result 3 ''emit'' ''message''
            (Some (emit_payload 3 (Str ''hi'') demo_refusing)) demo_refusing)
     = Some (Str ''refused'')
   \<and> published demo_refusing = []
   \<and> published (after (emit 3 ''message'' (Str ''hi'') demo_refusing))
     = [(''chat-engine:chat:public.:lobby'',
         [''data'' \<mapsto> Str ''hi'', ''sender'' \<mapsto> Str ''u1'', ''event'' \<mapsto> Str ''message''])]"
proof -
  have q: "queue_result [sample_plugin ''guard'' ''message'' rejecting_handler] ''on'' ''message''
             (restore 3 demo_guarded (Some [''text'' \<mapsto> Str ''hi''])) (pstate demo_guarded)
           = ((Some (Str ''rejected''), None), [''rejected''])"
    by (simp add: demo_guarded_rejects demo_guarded_fields)
  have r: "queue_result [sample_plugin ''guard'' ''message'' refusing_handler] ''emit'' ''message''
             (Some (emit_payload 3 (Str ''hi'') demo_refusing)) (pstate demo_refusing)
           = ((Some (Str ''refused''), Some (emit_payload 3 (Str ''hi'') demo_refusing)), [''refused''])"
    by (simp add: demo_refusing_refuses demo_refusing_fields)
  note e = emit_failed_prefix[OF demo_refusing_fields(1) r]
  have ch: "fst (ensure_Event 3 ''message'' (demo_refusing\<lparr>pstate := [''refused'']\<rparr>))
              = ''chat-engine:chat:public.:lobby''"
    by (simp add: ensure_Event_def Let_def demo_refusing_fields demo_lobby_me)
  have m: "(emit_payload 3 (Str ''hi'') demo_refusing)(''chat'' := None, ''event'' \<mapsto> Str ''message'')
             = [''data'' \<mapsto> Str ''hi'', ''sender'' \<mapsto> Str ''u1'', ''event'' \<mapsto> Str ''message'']"
    by (rule ext) (simp add: emit_payload_def demo_refusing_fields demo_lobby_me)
  have p0: "published demo_refusing = []"
    by (simp add: published_def demo_refusing_fields demo_lobby_quiet[unfolded published_def])
  have p1: "published (demo_refusing\<lparr>pstate := [''refused'']\<rparr>) = []"
    using p0 by (simp add: published_def)
  have "published (after (emit 3 ''message'' (Str ''hi'') demo_refusing))
     = [(''chat-engine:chat:public.:lobby'',
         [''data'' \<mapsto> Str ''hi'', ''sender'' \<mapsto> Str ''u1'', ''event'' \<mapsto> Str ''message''])]"
    by (simp only: e(1) emit_last_published ch m p1 option.case append_Nil)
  then show ?thesis
    using p0
    by (simp add: on_result_failed_prefix[OF demo_guarded_fields(1) q]
        trigger_failed_prefix[OF demo_guarded_fields(1) q] emitted_def demo_guarded_fields
        emitted_in_append demo_lobby_quiet[unfolded emitted_def] e(2))
qed

section \<open>Join notifications\<close>





section \<open>Leave notifications\<close>

lemma userLeave_unknown:
  "dict_get (users (chat_heap w c)) uid = None \<Longrightarrow> userLeave c uid w = w"
  by (simp add: userLeave_def)

lemma userLeave_known:
  assumes "dict_get (users (chat_heap w c)) uid = Some v"
  shows "local_events c (userLeave c uid w) = local_events c w @ [''$.offline.leave'']"
    and "users (chat_heap (userLeave c uid w) c) = (users (chat_heap w c))(uid := None)"
    and "c' \<noteq> c \<Longrightarrow> chat_heap (userLeave c uid w) c' = chat_heap w c'"
    and "ChatEngine_users (userLeave c uid w) = ChatEngine_users w"
    and "user_heap (userLeave c uid w) = user_heap w"
    and "no_handler c ''on'' ''$.offline.leave'' w \<Longrightarrow>
         emitted c ''$.offline.leave'' (userLeave c uid w) =
           emitted c ''$.offline.leave'' w @ [Some [''user'' \<mapsto> slot_val v, ''chat'' \<mapsto> ChatRef c]]"
  using assms
  by (simp_all add: userLeave_def Let_def trigger_fields local_events_def local_events_in_append
      emitted_def emitted_in_append delivered_no_handler restore_user_payload)

text \<open>
  A leave for an id that names no member of \<open>Object.prototype\<close>. When the id is in the
  roster the room delivers \<open>$.offline.leave\<close>, whose payload carries the roster's entry for
  the id (read before the removal), and removes the id from the roster; the global table
  and the identities are left as they were. When it is not, the handler returns the
  engine unchanged.
\<close>

lemma leave_of_ordinary_id:
  assumes "channel (chat_heap w c) = pe_channel pe" and "pe_action pe = ''leave''"
    and "pe_uuid pe \<notin> set prototype_members"
  shows "(\<forall>v. users (chat_heap w c) (pe_uuid pe) = Some v \<longrightarrow>
            local_events c (after (onPresence c pe w)) = local_events c w @ [''$.offline.leave'']
          \<and> (no_handler c ''on'' ''$.offline.leave'' w \<longrightarrow>
               emitted c ''$.offline.leave'' (after (onPresence c pe w)) =
                 emitted c ''$.offline.leave'' w @ [Some [''user'' \<mapsto> slot_val v, ''chat'' \<mapsto> ChatRef c]])
          \<and> users (chat_heap (after (onPresence c pe w)) c) = (users (chat_heap w c))(pe_uuid pe := None)
          \<and> ChatEngine_users (after (onPresence c pe w)) = ChatEngine_users w
          \<and> user_heap (after (onPresence c pe w)) = user_heap w)
       \<and> (users (chat_heap w c) (pe_uuid pe) = None \<longrightarrow> onPresence c pe w = Returned w)"
  using userLeave_known[of w c "pe_uuid pe"] userLeave_unknown[of w c "pe_uuid pe"] assms(3)
  by (simp add: onPresence_leave[OF assms(1,2)] after_simps dict_get_plain)

text \<open>
  Claim C7. The claim holds of \<open>userLeave\<close> for ids that name no member of
  \<open>Object.prototype\<close> (\<open>leave_of_ordinary_id\<close>), and its second half fails for the others.
  The id \<open>constructor\<close> is neither in the roster of the room \<open>lobby\<close> nor in the global
  table, and the room has delivered no \<open>$.offline.leave\<close>. A leave notification for it on
  the room's channel finds the inherited member \<open>this.users['constructor']\<close> truthy: the
  room delivers \<open>$.offline.leave\<close>, its payload carrying that member in place of an
  identity.
\<close>

theorem leave_of_unlisted_id_announced:
  "users (chat_heap demo_lobby 3) ''constructor'' = None
   \<and> ChatEngine_users demo_lobby ''constructor'' = None
   \<and> channel (chat_heap demo_lobby 3) = pe_channel (lobby_presence ''leave'' ''constructor'' None)
   \<and> emitted 3 ''$.offline.leave'' demo_lobby = []
   \<and> onPresence 3 (lobby_presence ''leave'' ''constructor'' None) demo_lobby
       = Returned (userLeave 3 ''constructor'' demo_lobby)
   \<and> emitted 3 ''$.offline.leave''
        (after (onPresence 3 (lobby_presence ''leave'' ''constructor'' None) demo_lobby))
       = [Some [''user'' \<mapsto> Builtin ''constructor'', ''chat'' \<mapsto> ChatRef 3]]
   \<and> local_events 3 (after (onPresence 3 (lobby_presence ''leave'' ''constructor'' None) demo_lobby))
       = [''$.offline.leave'']"
proof -
  let ?pe = "lobby_presence ''leave'' ''constructor'' None"
  have h: "channel (chat_heap demo_lobby 3) = pe_channel ?pe" "pe_action ?pe = ''leave''"
    by (simp_all add: demo_lobby_fields lobby_presence_fields)
  have g: "dict_get (users (chat_heap demo_lobby 3)) ''constructor'' = Some (Inherited ''constructor'')"
    by (simp add: dict_get_def demo_lobby_fields sample_ids)
  have nh: "no_handler 3 ''on'' ''$.offline.leave'' demo_lobby"
    by (rule demo_lobby_u2)
  show ?thesis
    using userLeave_known(1)[OF g] userLeave_known(6)[OF g nh]
    by (simp add: onPresence_leave[OF h] after_simps lobby_presence_fields demo_lobby_fields
        demo_lobby_quiet slot_val_def)
qed

section \<open>State-change notifications\<close>

text \<open>
  A state-change for an id that names no member of \<open>Object.prototype\<close>, in a world whose
  rosters agree with the table. For an id that is not in the roster the room delivers
  \<open>$.online.new\<close> and then \<open>$.state\<close>, and puts the id into the roster; for an id already
  in the roster the room delivers \<open>$.state\<close> alone and the roster is as before.
\<close>

lemma state_change_of_ordinary_id:
  assumes "c < next_chat w" and "table_wf w" and "roster_in_table w"
    and "channel (chat_heap w c) = pe_channel pe" and "pe_action pe = ''state-change''"
    and "pe_uuid pe \<notin> set prototype_members"
  shows "onPresence c pe w = Returned (after (onPresence c pe w))"
    and "local_events c (after (onPresence c pe w)) =
           local_events c w @
           (if users (chat_heap w c) (pe_uuid pe) = None
            then [''$.online.new'', ''$.state''] else [''$.state''])"
    and "users (chat_heap (after (onPresence c pe w)) c) =
           (users (chat_heap w c))(pe_uuid pe \<mapsto> Identity (identity_for (pe_uuid pe) w))"
    and "users (chat_heap w c) (pe_uuid pe) \<noteq> None \<Longrightarrow>
           users (chat_heap (after (onPresence c pe w)) c) = users (chat_heap w c)"
proof -
  have pl: "plain_id (pe_uuid pe) w"
    using assms(2,6) by (rule table_wf_plain_id)
  note sc = onPresence_state_change[OF assms(4,5)]
  show "onPresence c pe w = Returned (after (onPresence c pe w))"
    unfolding sc by (rule userUpdate_returns[OF pl assms(3)])
  show "local_events c (after (onPresence c pe w)) =
           local_events c w @
           (if users (chat_heap w c) (pe_uuid pe) = None
            then [''$.online.new'', ''$.state''] else [''$.state''])"
    unfolding sc by (rule userUpdate_events[OF assms(1) pl assms(3)])
  show r: "users (chat_heap (after (onPresence c pe w)) c) =
           (users (chat_heap w c))(pe_uuid pe \<mapsto> Identity (identity_for (pe_uuid pe) w))"
    unfolding sc by (simp add: userUpdate_chat[OF assms(1) pl assms(3)])
  show "users (chat_heap (after (onPresence c pe w)) c) = users (chat_heap w c)"
    if "users (chat_heap w c) (pe_uuid pe) \<noteq> None"
  proof -
    from that obtain v where v: "users (chat_heap w c) (pe_uuid pe) = Some v" by blast
    then have "users (chat_heap w c) (pe_uuid pe) = Some (Identity (identity_for (pe_uuid pe) w))"
      using roster_entry_identity(1)[OF assms(3) v] by simp
    then show ?thesis
      by (simp add: r fun_upd_idem)
  qed
qed

text \<open>
  Claim C10. The claim holds of \<open>userUpdate\<close> for ids that name no member of
  \<open>Object.prototype\<close> (\<open>state_change_of_ordinary_id\<close>) and fails for the others. The id
  \<open>constructor\<close> is not in the roster of the room \<open>lobby\<close>. A state-change notification for
  it on the room's channel stores the inherited member in the global table, finds
  \<open>this.users['constructor']\<close> truthy, skips \<open>createUser\<close> and raises a \<open>TypeError\<close>: the
  room delivers neither \<open>$.online.new\<close> nor \<open>$.state\<close>, and the roster has no entry for the
  id.
\<close>

theorem state_change_of_unlisted_id_raises:
  "users (chat_heap demo_lobby 3) ''constructor'' = None
   \<and> channel (chat_heap demo_lobby 3)
       = pe_channel (lobby_presence ''state-change'' ''constructor'' (Some [''name'' \<mapsto> Str ''Bob'']))
   \<and> local_events 3 demo_lobby = []
   \<and> onPresence 3 (lobby_presence ''state-change'' ''constructor'' (Some [''name'' \<mapsto> Str ''Bob'']))
        demo_lobby
       = Thrown TypeError
           (demo_lobby\<lparr>ChatEngine_users :=
              (ChatEngine_users demo_lobby)(''constructor'' \<mapsto> Inherited ''constructor'')\<rparr>)
   \<and> local_events 3
        (after (onPresence 3
           (lobby_presence ''state-change'' ''constructor'' (Some [''name'' \<mapsto> Str ''Bob'']))
           demo_lobby)) = []
   \<and> users (chat_heap
        (after (onPresence 3
           (lobby_presence ''state-change'' ''constructor'' (Some [''name'' \<mapsto> Str ''Bob'']))
           demo_lobby)) 3) ''constructor'' = None"
proof -
  let ?pe = "lobby_presence ''state-change'' ''constructor'' (Some [''name'' \<mapsto> Str ''Bob''])"
  have h: "channel (chat_heap demo_lobby 3) = pe_channel ?pe" "pe_action ?pe = ''state-change''"
    by (simp_all add: demo_lobby_fields lobby_presence_fields)
  have inv: "table_wf demo_lobby" "roster_in_table demo_lobby"
    using reachable_invariants[OF demo_reachable(3)] by simp_all
  have e: "ensure_user ''constructor'' demo_lobby =
             demo_lobby\<lparr>ChatEngine_users :=
                (ChatEngine_users demo_lobby)(''constructor'' \<mapsto> Inherited ''constructor'')\<rparr>"
    by (simp add: ensure_user_inherited sample_ids demo_lobby_fields dict_put_def)
  have t: "onPresence 3 ?pe demo_lobby = Thrown TypeError (ensure_user ''constructor'' demo_lobby)"
    by (simp add: onPresence_state_change[OF h] lobby_presence_fields
        userUpdate_throws[OF inv sample_ids(5)])
  have q: "local_events 3 (demo_lobby\<lparr>ChatEngine_users := t\<rparr>) = []" for t
    using demo_lobby_quiet(1) by (simp add: local_events_def)
  show ?thesis
    unfolding t e
    by (simp add: after_simps lobby_presence_fields demo_lobby_fields(1-12) demo_lobby_quiet q)
qed

section \<open>Merged state\<close>









section \<open>One identity per id\<close>











end
